theory Spec2Isabelle
  imports Main "HOL-Library.Sublist"
begin

section \<open>JavaScript strings\<close>

text \<open>
  A JavaScript string is modelled as a \<^typ>\<open>string\<close>, one \<^typ>\<open>char\<close> per code unit;
  \<^verbatim>\<open>length\<close>, \<^verbatim>\<open>slice\<close> and \<^verbatim>\<open>substring\<close> count chars. The model is that of ASCII text,
  where every code unit is below 128: the case mappings and the whitespace class \<^verbatim>\<open>\s\<close>
  below are the ASCII part of the JavaScript ones. Outside ASCII, JavaScript has further
  whitespace (U+00A0 and others, for \<^verbatim>\<open>\s\<close> and \<^verbatim>\<open>trim\<close> alike) and further case pairs, which
  are not modelled. A property that ranges over all texts and depends on whitespace or on
  letter case is therefore stated for texts that satisfy \<open>ascii_text\<close>. The word class
  \<^verbatim>\<open>\w\<close> is ASCII in JavaScript too. Emoji inside the fixed reply texts of the source are left
  out of the literals.
\<close>

definition ascii_text :: "string \<Rightarrow> bool" where
  "ascii_text s = list_all (\<lambda>c. (of_char c :: nat) < 128) s"

definition toLowerChar :: "char \<Rightarrow> char" where
  "toLowerChar c =
     (let n = (of_char c :: nat) in if 65 \<le> n \<and> n \<le> 90 then char_of (n + 32) else c)"

definition toUpperChar :: "char \<Rightarrow> char" where
  "toUpperChar c =
     (let n = (of_char c :: nat) in if 97 \<le> n \<and> n \<le> 122 then char_of (n - 32) else c)"

definition toLowerCase :: "string \<Rightarrow> string" where
  "toLowerCase s = map toLowerChar s"

definition toUpperCase :: "string \<Rightarrow> string" where
  "toUpperCase s = map toUpperChar s"

text \<open>
  The class \<^verbatim>\<open>\s\<close> on ASCII: tab, line feed, vertical tab, form feed, carriage return,
  space.
\<close>

definition isSpace :: "char \<Rightarrow> bool" where
  "isSpace c = (let n = (of_char c :: nat) in (9 \<le> n \<and> n \<le> 13) \<or> n = 32)"

text \<open>The class \<^verbatim>\<open>\w\<close>: letters, digits and the underscore.\<close>

definition isWordChar :: "char \<Rightarrow> bool" where
  "isWordChar c =
     (let n = (of_char c :: nat)
      in (48 \<le> n \<and> n \<le> 57) \<or> (65 \<le> n \<and> n \<le> 90) \<or> n = 95 \<or> (97 \<le> n \<and> n \<le> 122))"

text \<open>\<^verbatim>\<open>s.trim()\<close>\<close>

definition trim :: "string \<Rightarrow> string" where
  "trim s = rev (dropWhile isSpace (rev (dropWhile isSpace s)))"

text \<open>\<^verbatim>\<open>s.includes(p)\<close> (named \<open>str_includes\<close> here), \<^verbatim>\<open>s.startsWith(p)\<close>, \<^verbatim>\<open>s.endsWith(p)\<close>\<close>

fun str_includes :: "string \<Rightarrow> string \<Rightarrow> bool" where
  "str_includes [] p = (p = [])"
| "str_includes (c # cs) p = (prefix p (c # cs) \<or> str_includes cs p)"

definition startsWith :: "string \<Rightarrow> string \<Rightarrow> bool" where
  "startsWith s p = prefix p s"

definition endsWith :: "string \<Rightarrow> string \<Rightarrow> bool" where
  "endsWith s p = prefix (rev p) (rev s)"

text \<open>
  \<^verbatim>\<open>s.split(/\s+/)\<close>: the pieces between the maximal runs of whitespace. A run at the very
  start or at the very end leaves an empty piece there, and the empty string splits into one
  empty piece.
\<close>

function split_ws :: "string \<Rightarrow> string list" where
  "split_ws [] = [[]]"
| "split_ws (c # cs) =
     (if isSpace c then [] # split_ws (dropWhile isSpace cs)
      else (case split_ws cs of [] \<Rightarrow> [[c]] | t # ts \<Rightarrow> (c # t) # ts))"
  by pat_completeness auto
termination
  by (relation "measure length") (auto simp: length_dropWhile_le less_Suc_eq_le)

text \<open>
  The whitespace-delimited tokens of a text, defined on their own: skip whitespace, take the
  maximal run of other characters, repeat.
\<close>

function ws_tokens :: "string \<Rightarrow> string list" where
  "ws_tokens s =
     (case dropWhile isSpace s of
        [] \<Rightarrow> []
      | c # cs \<Rightarrow> takeWhile (\<lambda>x. \<not> isSpace x) (c # cs)
                 # ws_tokens (dropWhile (\<lambda>x. \<not> isSpace x) (c # cs)))"
  by pat_completeness auto
termination
proof (relation "measure length", goal_cases)
  case 1
  show ?case by simp
next
  case (2 s c cs)
  have "\<not> isSpace c"
    using 2 by (metis hd_dropWhile list.distinct(1) list.sel(1))
  hence "length (dropWhile (\<lambda>x. \<not> isSpace x) (c # cs)) \<le> length cs"
    by (simp add: length_dropWhile_le)
  moreover have "length (c # cs) \<le> length s"
    using 2 by (metis length_dropWhile_le)
  ultimately show ?case by simp
qed

declare ws_tokens.simps [simp del]

text \<open>\<^verbatim>\<open>s.slice(0, n)\<close> and \<^verbatim>\<open>s.substring(0, n)\<close> are \<^term>\<open>take n s\<close>.\<close>

text \<open>JavaScript truthiness of an optional string: defined and not empty.\<close>

fun truthy :: "string option \<Rightarrow> bool" where
  "truthy None = False"
| "truthy (Some s) = (s \<noteq> [])"

text \<open>\<^verbatim>\<open>x || d\<close> on an optional string\<close>

fun or_default :: "string option \<Rightarrow> string \<Rightarrow> string" where
  "or_default None d = d"
| "or_default (Some s) d = (if s \<noteq> [] then s else d)"

section \<open>cast-utils.ts: the "coin this cast" classifier\<close>

definition coin_cast_patterns :: "string list" where
  "coin_cast_patterns =
     [''coin this cast'', ''coin this post'', ''coinify this cast'', ''tokenize this cast'',
      ''token this cast'', ''make this a coin'', ''turn this into a coin'',
      ''create coin from this'']"

definition isRequestToCoinCast :: "string \<Rightarrow> bool" where
  "isRequestToCoinCast text =
     (let lowerText = toLowerCase text;
          hasPattern = list_ex (\<lambda>pattern. str_includes lowerText pattern) coin_cast_patterns
      in if \<not> hasPattern \<and> str_includes lowerText ''coin this''
            \<and> length (split_ws (trim lowerText)) \<le> 4
            \<and> (str_includes lowerText ''coin this'' \<or> str_includes lowerText ''@zoiner coin this'')
         then True
         else hasPattern)"

section \<open>ai-agent.ts: generateSymbolFromName\<close>

text \<open>
  \<^verbatim>\<open>words.map(w => w[0]).join('')\<close>: \<^verbatim>\<open>w[0]\<close> of an empty piece is \<^verbatim>\<open>undefined\<close>, which
  \<^verbatim>\<open>join\<close> renders as the empty string; so each piece contributes \<^term>\<open>take 1 w\<close>.
\<close>

definition generateSymbolFromName :: "string \<Rightarrow> string" where
  "generateSymbolFromName name =
     (let words = split_ws name
      in if length words > 1
         then take 10 (toUpperCase (concat (map (take 1) words)))
         else take 4 (toUpperCase name))"

text \<open>
  The symbol as the specification words it: the first letters of the words when there is more
  than one word, the word itself otherwise.
\<close>

definition spec_generateSymbolFromName :: "string \<Rightarrow> string" where
  "spec_generateSymbolFromName name =
     (let ws = ws_tokens name
      in if length ws > 1
         then take 10 (toUpperCase (map hd ws))
         else take 4 (toUpperCase (concat ws)))"

section \<open>image-utils.ts: extractImageFromCast\<close>

record farcaster_user =
  fid :: nat
  username :: string
  display_name :: string

record embed =
  embed_url :: "string option"
  embed_title :: "string option"
  embed_description :: "string option"
  embed_image :: "string option"
  embed_mimetype :: "string option"

record embedded_media =
  media_url :: "string option"
  media_type :: "string option"
  media_alt_text :: "string option"

record farcaster_cast =
  hash :: string
  parent_hash :: "string option"
  author :: farcaster_user
  cast_text :: string
  timestamp :: int
  embeds :: "embed list option"
  mentions :: "nat list option"
  embedded_media :: "embedded_media list option"
  image_urls :: "string list option"
  images :: "string list option"

definition imageExtensions :: "string list" where
  "imageExtensions = [''.jpg'', ''.jpeg'', ''.png'', ''.gif'', ''.webp'', ''.bmp'', ''.svg'']"

definition isLikelyImageUrl :: "string \<Rightarrow> bool" where
  "isLikelyImageUrl url =
     (let lowercaseUrl = toLowerCase url
      in list_ex (\<lambda>ext. endsWith lowercaseUrl ext \<or> str_includes lowercaseUrl ''image'')
           imageExtensions)"

text \<open>\<^verbatim>\<open>x?.startsWith('image/')\<close> on an optional string\<close>

fun declared_image :: "string option \<Rightarrow> bool" where
  "declared_image None = False"
| "declared_image (Some m) = startsWith m ''image/''"

text \<open>
  A \<^verbatim>\<open>for (const x of xs)\<close> loop whose body may \<^verbatim>\<open>return\<close>: the body maps an element to
  \<open>Some\<close> returned value or to \<open>None\<close> (fall through to the next element).
\<close>

fun for_of_return :: "('a \<Rightarrow> 'b option) \<Rightarrow> 'a list \<Rightarrow> 'b option" where
  "for_of_return body [] = None"
| "for_of_return body (x # xs) =
     (case body x of Some r \<Rightarrow> Some r | None \<Rightarrow> for_of_return body xs)"

text \<open>The body of the loop over \<^verbatim>\<open>cast.embeds\<close>.\<close>

definition check_embed :: "embed \<Rightarrow> string option" where
  "check_embed e =
     (case (if truthy (embed_url e)
            then (case embed_url e of
                    Some u \<Rightarrow> if declared_image (embed_mimetype e) then Some u
                              else if isLikelyImageUrl u then Some u
                              else None
                  | None \<Rightarrow> None)
            else None) of
        Some u \<Rightarrow> Some u
      | None \<Rightarrow> if truthy (embed_image e) then embed_image e else None)"


text \<open>The body of the loop over \<^verbatim>\<open>cast.embedded_media\<close>.\<close>

definition check_media :: "embedded_media \<Rightarrow> string option" where
  "check_media m =
     (if truthy (media_url m)
      then (case media_url m of
              Some u \<Rightarrow> if declared_image (media_type m) then Some u
                        else if isLikelyImageUrl u then Some u
                        else None
            | None \<Rightarrow> None)
      else None)"


text \<open>\<^verbatim>\<open>xs && xs.length > 0\<close> guards each block; an absent list behaves as the empty one.\<close>

fun or_empty :: "'a list option \<Rightarrow> 'a list" where
  "or_empty None = []"
| "or_empty (Some xs) = xs"

definition extractImageFromCast :: "farcaster_cast \<Rightarrow> string option" where
  "extractImageFromCast cast =
     (case for_of_return check_embed (or_empty (embeds cast)) of
        Some u \<Rightarrow> Some u
      | None \<Rightarrow>
     (case for_of_return check_media (or_empty (embedded_media cast)) of
        Some u \<Rightarrow> Some u
      | None \<Rightarrow>
     (case or_empty (image_urls cast) of
        u # _ \<Rightarrow> Some u
      | [] \<Rightarrow>
     (case or_empty (images cast) of
        u # _ \<Rightarrow> Some u
      | [] \<Rightarrow> None))))"

text \<open>
  The search as the specification words it: one pass over all embeds per criterion, the
  criteria in the order (a) declared MIME type, (b) URL heuristic, (c) image field, then the
  legacy media with the two URL checks, then the first directly provided image URL.
\<close>

definition spec_extractImage :: "farcaster_cast \<Rightarrow> string option" where
  "spec_extractImage cast =
     (let es = or_empty (embeds cast); ms = or_empty (embedded_media cast)
      in case find (\<lambda>e. truthy (embed_url e) \<and> declared_image (embed_mimetype e)) es of
           Some e \<Rightarrow> embed_url e
         | None \<Rightarrow>
        (case find (\<lambda>e. truthy (embed_url e) \<and> isLikelyImageUrl (the (embed_url e))) es of
           Some e \<Rightarrow> embed_url e
         | None \<Rightarrow>
        (case find (\<lambda>e. truthy (embed_image e)) es of
           Some e \<Rightarrow> embed_image e
         | None \<Rightarrow>
        (case find (\<lambda>m. truthy (media_url m) \<and> declared_image (media_type m)) ms of
           Some m \<Rightarrow> media_url m
         | None \<Rightarrow>
        (case find (\<lambda>m. truthy (media_url m) \<and> isLikelyImageUrl (the (media_url m))) ms of
           Some m \<Rightarrow> media_url m
         | None \<Rightarrow>
        (case or_empty (image_urls cast) of u # _ \<Rightarrow> Some u | [] \<Rightarrow> None))))))"

text \<open>
  A cast with two embeds: the first has an image URL by its extension and no declared type,
  the second declares an image MIME type.
\<close>

definition two_embeds_cast :: farcaster_cast where
  "two_embeds_cast =
     \<lparr>hash = ''0xA'', parent_hash = None,
      author = \<lparr>fid = 7, username = ''alice'', display_name = ''Alice''\<rparr>,
      cast_text = ''@zoiner make a token'', timestamp = 0,
      embeds = Some
        [\<lparr>embed_url = Some ''https://x/a.png'', embed_title = None, embed_description = None,
          embed_image = None, embed_mimetype = None\<rparr>,
         \<lparr>embed_url = Some ''https://x/b'', embed_title = None, embed_description = None,
          embed_image = None, embed_mimetype = Some ''image/png''\<rparr>],
      mentions = None, embedded_media = None, image_urls = None, images = None\<rparr>"

section \<open>Regular expressions of the extractors\<close>

text \<open>
  The patterns of \<^verbatim>\<open>extractExplicitName\<close> and \<^verbatim>\<open>extractExplicitSymbol\<close> use literals, character
  classes (single, optional, or repeated greedily or lazily), alternation, one capture group,
  the end anchor and the word boundary, all under the flag \<^verbatim>\<open>i\<close>. The matcher below is a
  backtracking matcher for this fragment: it returns the states after a match in the order in
  which JavaScript tries them, so the head of the list is the match JavaScript reports.

  A state is the character before the current position (for \<^verbatim>\<open>\b\<close>), the rest of the input,
  and the text of capture group 1 if it has matched.
\<close>

datatype rx =
    Lit string
  | One "char \<Rightarrow> bool"
  | Rep "char \<Rightarrow> bool" nat bool
  | Opt rx
  | Alt rx rx
  | Seq rx rx
  | Group rx
  | EndOfInput
  | WordBoundary

type_synonym mstate = "char option \<times> string \<times> string option"

text \<open>A literal under flag \<^verbatim>\<open>i\<close>: characters are compared after case folding.\<close>

fun lit_match :: "string \<Rightarrow> char option \<Rightarrow> string \<Rightarrow> (char option \<times> string) option" where
  "lit_match [] p s = Some (p, s)"
| "lit_match (l # ls) p [] = None"
| "lit_match (l # ls) p (c # cs) =
     (if toLowerChar l = toLowerChar c then lit_match ls (Some c) cs else None)"

text \<open>
  \<open>Rep cls n greedy\<close> is the class repeated at least \<open>n\<close> times: a greedy repetition tries the
  longest run first and gives characters back one at a time, a lazy one tries \<open>n\<close> characters
  first and takes one more at a time.
\<close>

definition rep_states :: "(char \<Rightarrow> bool) \<Rightarrow> nat \<Rightarrow> bool \<Rightarrow> mstate \<Rightarrow> mstate list" where
  "rep_states cls n greedy st =
     (case st of (p, s, g) \<Rightarrow>
        let m = length (takeWhile cls s);
            ks = (if greedy then rev [n..<Suc m] else [n..<Suc m])
        in map (\<lambda>k. (if k = 0 then p else Some (s ! (k - 1)), drop k s, g)) ks)"

fun rx_match :: "rx \<Rightarrow> mstate \<Rightarrow> mstate list" where
  "rx_match (Lit l) (p, s, g) =
     (case lit_match l p s of None \<Rightarrow> [] | Some (p', s') \<Rightarrow> [(p', s', g)])"
| "rx_match (One cls) (p, s, g) =
     (case s of [] \<Rightarrow> [] | c # cs \<Rightarrow> if cls c then [(Some c, cs, g)] else [])"
| "rx_match (Rep cls n greedy) st = rep_states cls n greedy st"
| "rx_match (Opt r) st = rx_match r st @ [st]"
| "rx_match (Alt r1 r2) st = rx_match r1 st @ rx_match r2 st"
| "rx_match (Seq r1 r2) st = concat (map (rx_match r2) (rx_match r1 st))"
| "rx_match (Group r) (p, s, g) =
     map (\<lambda>(p', s', g'). (p', s', Some (take (length s - length s') s))) (rx_match r (p, s, g))"
| "rx_match EndOfInput (p, s, g) = (if s = [] then [(p, s, g)] else [])"
| "rx_match WordBoundary (p, s, g) =
     (let word_left = (case p of None \<Rightarrow> False | Some c \<Rightarrow> isWordChar c);
          word_right = (case s of [] \<Rightarrow> False | c # _ \<Rightarrow> isWordChar c)
      in if word_left \<noteq> word_right then [(p, s, g)] else [])"

text \<open>
  \<^verbatim>\<open>text.match(pattern)\<close> without the flag \<^verbatim>\<open>g\<close>: the leftmost start position with a match
  wins. The result is \<open>None\<close> for \<^verbatim>\<open>null\<close>, otherwise the text of group 1.
\<close>

fun rx_search :: "rx \<Rightarrow> char option \<Rightarrow> string \<Rightarrow> string option option" where
  "rx_search r p s =
     (case rx_match r (p, s, None) of
        (_, _, g) # _ \<Rightarrow> Some g
      | [] \<Rightarrow> (case s of [] \<Rightarrow> None | c # cs \<Rightarrow> rx_search r (Some c) cs))"

declare rx_search.simps [simp del]

definition js_match :: "string \<Rightarrow> rx \<Rightarrow> string option option" where
  "js_match txt pattern = rx_search pattern None txt"

text \<open>\<^verbatim>\<open>match?.[1]\<close>: the first group of a match, \<^verbatim>\<open>undefined\<close> without one.\<close>

definition match_group1 :: "string \<Rightarrow> rx \<Rightarrow> string option" where
  "match_group1 txt pattern = (case js_match txt pattern of None \<Rightarrow> None | Some g \<Rightarrow> g)"

definition seqs :: "rx list \<Rightarrow> rx" where
  "seqs rs = foldr Seq (butlast rs) (last rs)"

definition dquote :: char where "dquote = CHR 0x22"
definition squote :: char where "squote = CHR 0x27"
definition newline :: char where "newline = CHR 0x0A"
definition creturn :: char where "creturn = CHR 0x0D"

text \<open>\<^verbatim>\<open>["']\<close>, \<^verbatim>\<open>[^,\n\r]\<close>, \<^verbatim>\<open>[^"',]\<close>, \<^verbatim>\<open>[^"]\<close>, \<^verbatim>\<open>[^"',\s]\<close>, \<^verbatim>\<open>[A-Z0-9]\<close> under flag \<^verbatim>\<open>i\<close>\<close>

definition cls_quote :: "char \<Rightarrow> bool" where
  "cls_quote c = (c = dquote \<or> c = squote)"

definition cls_not_comma_nl :: "char \<Rightarrow> bool" where
  "cls_not_comma_nl c = (c \<noteq> CHR '','' \<and> c \<noteq> newline \<and> c \<noteq> creturn)"

definition cls_not_quote_comma :: "char \<Rightarrow> bool" where
  "cls_not_quote_comma c = (c \<noteq> dquote \<and> c \<noteq> squote \<and> c \<noteq> CHR '','')"

definition cls_not_dquote :: "char \<Rightarrow> bool" where
  "cls_not_dquote c = (c \<noteq> dquote)"

definition cls_not_quote_comma_space :: "char \<Rightarrow> bool" where
  "cls_not_quote_comma_space c =
     (c \<noteq> dquote \<and> c \<noteq> squote \<and> c \<noteq> CHR '','' \<and> \<not> isSpace c)"

definition cls_alnum :: "char \<Rightarrow> bool" where
  "cls_alnum c = (isWordChar c \<and> c \<noteq> CHR ''_'')"

text \<open>\<^verbatim>\<open>(?:\s*,|\s+ticker:|\s*$)\<close>\<close>

definition name_end :: rx where
  "name_end =
     Alt (Seq (Rep isSpace 0 True) (Lit '',''))
    (Alt (Seq (Rep isSpace 1 True) (Lit ''ticker:''))
         (Seq (Rep isSpace 0 True) EndOfInput))"

text \<open>\<^verbatim>\<open>/<lead>\s*([^,\n\r]+?)(?:\s*,|\s+ticker:|\s*$)/i\<close>\<close>

definition colon_pattern :: "string \<Rightarrow> rx" where
  "colon_pattern lead =
     seqs [Lit lead, Rep isSpace 0 True, Group (Rep cls_not_comma_nl 1 False), name_end]"

definition called_or_named :: rx where
  "called_or_named = Alt (Lit ''called'') (Lit ''named'')"

definition name_patterns :: "rx list" where
  "name_patterns =
     [colon_pattern ''coin this content:'',
      colon_pattern ''create coin:'',
      colon_pattern ''create a coin:'',
      colon_pattern ''make a coin:'',
      colon_pattern ''coin this:'',
      colon_pattern ''tokenize this:'',
      colon_pattern ''mint this:'',
      seqs [Lit ''create '', Opt (Lit ''a ''), Lit ''coin '', called_or_named, Lit '' '',
            Opt (One cls_quote), Group (Rep cls_not_quote_comma 1 False), Opt (One cls_quote),
            name_end],
      seqs [Lit ''coin '', called_or_named, Lit '' '',
            Opt (One cls_quote), Group (Rep cls_not_quote_comma 1 False), Opt (One cls_quote),
            name_end],
      seqs [Lit ''token '', called_or_named, Lit '' '',
            Opt (One cls_quote), Group (Rep cls_not_quote_comma 1 False), Opt (One cls_quote)],
      seqs [Lit ''name:'', Rep isSpace 0 True,
            Opt (One cls_quote), Group (Rep cls_not_quote_comma 1 False), Opt (One cls_quote),
            name_end],
      seqs [Lit [dquote], Group (Rep cls_not_dquote 1 True), Lit (dquote # '' token'')]]"

text \<open>
  The loop \<^verbatim>\<open>for (const pattern of patterns)\<close> of both extractors: a pattern whose group 1
  is a non-empty text ends the search.
\<close>

definition extractExplicitName :: "string \<Rightarrow> string option" where
  "extractExplicitName txt =
     for_of_return
       (\<lambda>pattern. case match_group1 txt pattern of
                     None \<Rightarrow> None
                   | Some g \<Rightarrow> if g \<noteq> [] then Some (trim g) else None)
       name_patterns"

definition symbol_patterns :: "rx list" where
  "symbol_patterns =
     [seqs [Lit ''ticker:'', Rep isSpace 0 True, Opt (One cls_quote),
            Group (Rep cls_not_quote_comma_space 1 True), Opt (One cls_quote)],
      seqs [Lit ''symbol:'', Rep isSpace 0 True, Opt (One cls_quote),
            Group (Rep cls_not_quote_comma_space 1 True), Opt (One cls_quote)],
      seqs [Lit ''$'', Group (Rep cls_alnum 1 True), WordBoundary]]"

definition extractExplicitSymbol :: "string \<Rightarrow> string option" where
  "extractExplicitSymbol txt =
     for_of_return
       (\<lambda>pattern. case match_group1 txt pattern of
                     None \<Rightarrow> None
                   | Some g \<Rightarrow> if g \<noteq> [] then Some (toUpperCase (trim g)) else None)
       symbol_patterns"

section \<open>parser-utils.ts: the sanitizers\<close>

text \<open>\<^verbatim>\<open>[\w\s\-\.']\<close>: the characters that \<^verbatim>\<open>replace(/[^\w\s\-\.']/g, '')\<close> keeps.\<close>

definition safe_char :: "char \<Rightarrow> bool" where
  "safe_char c = (isWordChar c \<or> isSpace c \<or> c = CHR ''-'' \<or> c = CHR ''.'' \<or> c = squote)"

definition sanitizeName :: "string \<Rightarrow> string" where
  "sanitizeName name = (let sanitized = trim (filter safe_char name) in take 30 sanitized)"

definition sanitizeSymbol :: "string \<Rightarrow> string" where
  "sanitizeSymbol symbol = (let sanitized = trim (filter safe_char symbol) in sanitized)"

section \<open>zora.ts: metadata validation and coin creation with retry\<close>

text \<open>
  A thrown value: an \<^verbatim>\<open>Error\<close> with its message, an \<^verbatim>\<open>Error\<close> of the HTTP client that carries
  \<^verbatim>\<open>response.status\<close>, or a value that is not an \<^verbatim>\<open>Error\<close> instance.
\<close>

datatype thrown = JsError string | HttpError string nat | NonError

text \<open>\<^verbatim>\<open>error instanceof Error ? error.message : 'Unknown error'\<close>\<close>

fun error_message :: "thrown \<Rightarrow> string" where
  "error_message (JsError m) = m"
| "error_message (HttpError m st) = m"
| "error_message NonError = ''Unknown error''"

text \<open>Decimal rendering of a number inside a template string.\<close>

function show_nat :: "nat \<Rightarrow> string" where
  "show_nat n =
     (if n < 10 then [char_of (48 + n)] else show_nat (n div 10) @ [char_of (48 + n mod 10)])"
  by pat_completeness auto
termination
  by (relation "measure id") auto

declare show_nat.simps [simp del]

record metadata_doc =
  md_name :: "string option"
  md_description :: "string option"
  md_image :: "string option"

record http_response =
  status :: nat
  data :: "metadata_doc option"

record coin_params =
  cp_name :: "string option"
  cp_symbol :: "string option"
  cp_uri :: string
  cp_payoutRecipient :: string
  cp_platformReferrer :: "string option"

record coin_result =
  result_hash :: string
  result_address :: string

text \<open>
  The environment of the Zora service: \<^verbatim>\<open>process.env.DRY_RUN === 'true'\<close>,
  \<^verbatim>\<open>process.env.GATEWAY_URL\<close>, the answers of \<^verbatim>\<open>axios.get\<close> per URL, and the outcome of the
  SDK's \<^verbatim>\<open>createCoin\<close> per parameters and attempt number.
\<close>

record zora_env =
  dry_run :: bool
  gateway_url :: "string option"
  http_get :: "string \<Rightarrow> thrown + http_response"
  sdk_createCoin :: "coin_params \<Rightarrow> nat \<Rightarrow> thrown + coin_result"

datatype zora_event = HttpGet string | SdkCall coin_params nat | Sleep nat

text \<open>The three required fields; the first missing one names the error.\<close>

definition missing_field :: "metadata_doc \<Rightarrow> string option" where
  "missing_field metadata =
     (if \<not> truthy (md_name metadata) then Some ''Metadata must include a name''
      else if \<not> truthy (md_description metadata) then Some ''Metadata must include a description''
      else if \<not> truthy (md_image metadata) then Some ''Metadata must include an image''
      else None)"

text \<open>
  The loop over the gateways. A failed request, a status other than 200, an empty body, and a
  document with a missing field (thrown inside the \<^verbatim>\<open>try\<close>, caught by its \<^verbatim>\<open>catch\<close>) all go on
  to the next gateway; only a complete document reaches the \<^verbatim>\<open>break\<close>. The result is the
  requests made and the flag \<^verbatim>\<open>fetched\<close>.
\<close>

fun try_gateways ::
  "(string \<Rightarrow> thrown + http_response) \<Rightarrow> string list \<Rightarrow> bool \<Rightarrow> zora_event list \<times> bool" where
  "try_gateways get [] fetched = ([], fetched)"
| "try_gateways get (gateway # rest) fetched =
     (case get gateway of
        Inl e \<Rightarrow>
          (case try_gateways get rest fetched of (evs, f) \<Rightarrow> (HttpGet gateway # evs, f))
      | Inr response \<Rightarrow>
          (case (if status response = 200 then data response else None) of
             None \<Rightarrow>
               (case try_gateways get rest fetched of (evs, f) \<Rightarrow> (HttpGet gateway # evs, f))
           | Some metadata \<Rightarrow>
               (case missing_field metadata of
                  Some msg \<Rightarrow>
                    (case try_gateways get rest True of (evs, f) \<Rightarrow> (HttpGet gateway # evs, f))
                | None \<Rightarrow> ([HttpGet gateway], True))))"

definition type_error_message :: string where
  "type_error_message = ''Cannot read properties of undefined''"

text \<open>The branch of \<^verbatim>\<open>validateMetadataURI\<close> for an \<^verbatim>\<open>ipfs://\<close> URI.\<close>

definition validate_ipfs_uri ::
  "zora_env \<Rightarrow> string \<Rightarrow> zora_event list \<times> (thrown + bool)" where
  "validate_ipfs_uri env uri =
     (let cid = drop 7 uri
      in if cid = [] \<or> length cid < 10
         then ([], Inl (JsError ''Invalid IPFS CID format''))
         else (let gateways =
                    [''https://gateway.pinata.cloud/ipfs/'' @ cid,
                     ''https://ipfs.io/ipfs/'' @ cid,
                     ''https://''
                       @ or_default (gateway_url env) ''tan-obvious-puffin-912.mypinata.cloud''
                       @ ''/ipfs/'' @ cid]
               in (fst (try_gateways (http_get env) gateways False), Inr True)))"

text \<open>
  The branch for an \<^verbatim>\<open>http(s)://\<close> URI: every error inside the \<^verbatim>\<open>try\<close>, also the one for a
  missing field, is caught and thrown again as \<^verbatim>\<open>Failed to fetch metadata: ...\<close>.
\<close>

definition validate_http_uri ::
  "zora_env \<Rightarrow> string \<Rightarrow> zora_event list \<times> (thrown + bool)" where
  "validate_http_uri env uri =
     (case http_get env uri of
        Inl (HttpError m st) \<Rightarrow>
          ([HttpGet uri], Inl (JsError (''Failed to fetch metadata: HTTP '' @ show_nat st)))
      | Inl e \<Rightarrow>
          ([HttpGet uri], Inl (JsError (''Failed to fetch metadata: '' @ error_message e)))
      | Inr response \<Rightarrow>
          (case data response of
             None \<Rightarrow>
               ([HttpGet uri],
                Inl (JsError (''Failed to fetch metadata: '' @ type_error_message)))
           | Some metadata \<Rightarrow>
               (case missing_field metadata of
                  Some msg \<Rightarrow>
                    ([HttpGet uri], Inl (JsError (''Failed to fetch metadata: '' @ msg)))
                | None \<Rightarrow> ([HttpGet uri], Inr True))))"

definition validateMetadataURI ::
  "zora_env \<Rightarrow> string \<Rightarrow> zora_event list \<times> (thrown + bool)" where
  "validateMetadataURI env uri =
     (if \<not> startsWith uri ''ipfs://'' \<and> \<not> startsWith uri ''http://''
         \<and> \<not> startsWith uri ''https://''
      then ([], Inl (JsError ''URI must start with ipfs://, http://, or https://''))
      else if startsWith uri ''ipfs://'' then validate_ipfs_uri env uri
      else validate_http_uri env uri)"

definition maxRetries :: nat where
  "maxRetries = 3"

text \<open>\<^verbatim>\<open>errorMessage && errorMessage.includes('Metadata fetch failed')\<close>\<close>

definition metadata_not_propagated :: "thrown \<Rightarrow> bool" where
  "metadata_not_propagated error =
     (let errorMessage = error_message error
      in errorMessage \<noteq> [] \<and> str_includes errorMessage ''Metadata fetch failed'')"

text \<open>
  The loop \<^verbatim>\<open>for (let attempt = 1; attempt <= maxRetries; attempt++)\<close> with the
  \<^verbatim>\<open>throw lastError || new Error(...)\<close> after it. The pair is the calls and sleeps made, and
  the value returned (\<open>Inr\<close>) or thrown (\<open>Inl\<close>).
\<close>

function retry_loop ::
  "zora_env \<Rightarrow> coin_params \<Rightarrow> nat \<Rightarrow> thrown option
     \<Rightarrow> zora_event list \<times> (thrown + coin_result)" where
  "retry_loop env params attempt lastError =
     (if attempt \<le> maxRetries
      then (case sdk_createCoin env params attempt of
              Inr result \<Rightarrow> ([SdkCall params attempt], Inr result)
            | Inl error \<Rightarrow>
                if metadata_not_propagated error
                then (let waitTime = 5000 * 2 ^ (attempt - 1)
                      in case retry_loop env params (attempt + 1) (Some error) of
                           (evs, res) \<Rightarrow> (SdkCall params attempt # Sleep waitTime # evs, res))
                else ([SdkCall params attempt], Inl error))
      else ([], Inl (case lastError of
                       Some e \<Rightarrow> e
                     | None \<Rightarrow> JsError ''Failed to create coin after multiple attempts'')))"
  by pat_completeness auto
termination
  by (relation "measure (\<lambda>(env, params, attempt, lastError). Suc maxRetries - attempt)") auto

declare retry_loop.simps [simp del]

definition simulated_result :: coin_result where
  "simulated_result =
     \<lparr>result_hash = ''0x0000000000000000000000000000000000000000000000000000000000000000'',
      result_address = ''0x0000000000000000000000000000000000000000''\<rparr>"

text \<open>
  \<^verbatim>\<open>ZoraService.createCoin\<close>. Outside dry-run mode the validation runs first, and an error
  it throws is thrown on as \<^verbatim>\<open>Invalid metadata: ...\<close>; in dry-run mode the validation is
  skipped and a simulated result is returned.
\<close>

definition createCoin ::
  "zora_env \<Rightarrow> coin_params \<Rightarrow> zora_event list \<times> (thrown + coin_result)" where
  "createCoin env params =
     (if dry_run env then ([], Inr simulated_result)
      else (case validateMetadataURI env (cp_uri params) of
              (vevs, Inl e) \<Rightarrow> (vevs, Inl (JsError (''Invalid metadata: '' @ error_message e)))
            | (vevs, Inr isValid) \<Rightarrow>
                (case retry_loop env params 1 None of (evs, res) \<Rightarrow> (vevs @ evs, res))))"

text \<open>\<^verbatim>\<open>generateZoraUrl(contractAddress, referrerAddress)\<close> with a non-empty referrer\<close>

definition generateZoraUrl :: "string \<Rightarrow> string \<Rightarrow> string" where
  "generateZoraUrl contractAddress referrerAddress =
     (let baseUrl = ''https://zora.co/coin/base:'' @ contractAddress
      in if referrerAddress \<noteq> [] then baseUrl @ ''?referrer='' @ referrerAddress else baseUrl)"

text \<open>
  Example environments: every HTTP request times out; the SDK fails twice because the metadata
  has not propagated and succeeds on the third attempt.
\<close>

definition wave_params :: "string \<Rightarrow> coin_params" where
  "wave_params uri =
     \<lparr>cp_name = Some ''Wave Rider'', cp_symbol = Some ''WAVE'', cp_uri = uri,
      cp_payoutRecipient = ''0xabc'', cp_platformReferrer = Some ''0xdef''\<rparr>"

definition minted :: coin_result where
  "minted = \<lparr>result_hash = ''0x1'', result_address = ''0x2''\<rparr>"

definition third_time_env :: zora_env where
  "third_time_env =
     \<lparr>dry_run = False, gateway_url = None,
      http_get = (\<lambda>u. Inl (JsError ''timeout of 5000ms exceeded'')),
      sdk_createCoin =
        (\<lambda>p k. if k < 3 then Inl (JsError ''Metadata fetch failed: not found'')
                else Inr minted)\<rparr>"

definition ipfs_uri :: string where
  "ipfs_uri = ''ipfs://bafkreiabcdefghijklmnop''"


text \<open>A request whose name is long and has characters outside the safe set.\<close>

definition long_name_request :: string where
  "long_name_request =
     ''@zoiner create coin: Caf$ Racer!! the very best coin of the whole wide world ticker: a$b!''"

section \<open>ai-agent.ts: the agent\<close>

record agent_decision =
  action :: string
  message :: string
  suggested_name :: "string option"
  suggested_symbol :: "string option"
  metadata_description :: "string option"

text \<open>The fields of an image analysis that the decision code reads.\<close>

record image_analysis =
  ia_id :: "nat option"
  ia_image_url :: string
  artistic_style :: string
  mood :: string
  suggested_names :: "string list"
  suggested_symbols :: "string list"
  visual_description :: string

text \<open>
  The user context: \<open>recent_actions\<close> is the column \<^verbatim>\<open>action_taken\<close> of the recent conversations,
  newest first.
\<close>

record user_context =
  uc_fid :: nat
  recent_actions :: "string list"
  creation_count :: nat

text \<open>
  A call of the advisory model. The fixed prompt texts are not modelled; a request carries the
  text interpolated into its prompt: the context text of the decision prompt, or the cleaned
  cast text and the author's label of the naming prompt.
\<close>

datatype claude_request = DecisionRequest string | CastNamingRequest string string

record token_info =
  ti_name :: string
  ti_symbol :: string
  ti_description :: string

text \<open>What \<^verbatim>\<open>JSON.parse\<close> finds in the naming answer.\<close>

record parsed_token_info =
  pt_name :: "string option"
  pt_symbol :: "string option"
  pt_description :: "string option"

text \<open>A row of \<^verbatim>\<open>ai_token_creations\<close> and a row of \<^verbatim>\<open>conversations\<close>.\<close>

record ledger_row =
  lr_fid :: nat
  token_address :: string
  token_name :: "string option"
  token_symbol :: "string option"
  lr_image_url :: string
  image_analysis_id :: "nat option"
  ai_generated_description :: "string option"
  user_prompt :: string
  zora_url :: string
  transaction_hash :: string

record conversation_row =
  cv_fid :: nat
  cv_cast_hash :: string
  user_message :: string
  agent_response :: string
  cv_image_url :: "string option"
  cv_image_analysis_id :: "nat option"
  action_taken :: string

text \<open>
  The effects of the agent, in order: a call of \<^verbatim>\<open>replyToCast\<close> (author fid, cast hash, text),
  a call of the advisory model, an effect of the Zora service, a row inserted into the ledger,
  a row inserted into the conversations.
\<close>

datatype agent_event =
    Reply nat string string
  | ClaudeCall claude_request
  | Zora zora_event
  | LedgerInsert ledger_row
  | ConversationInsert conversation_row

text \<open>
  The collaborators of the agent. \<^verbatim>\<open>replyToCast\<close>, \<^verbatim>\<open>getCastByHash\<close> and
  \<^verbatim>\<open>getUserEthereumAddress\<close> of neynar-bot.ts catch every error and return \<^verbatim>\<open>null\<close>, so they
  have no error result. \<^verbatim>\<open>analyzeImage\<close>, \<^verbatim>\<open>getUserContext\<close>, the advisory call, the metadata
  upload and the two inserts may throw. \<open>analyzeImage\<close> stands for the whole method (cache
  lookup, download, vision call, cache insert); what it does is not part of the trace. \<open>parse_decision\<close> and \<open>parse_token_info\<close> stand for \<^verbatim>\<open>JSON.parse\<close>, with
  \<open>None\<close> for a syntax error. \<open>platform_address\<close> is the constant
  \<^verbatim>\<open>ZOINER_PLATFORM_ADDRESS\<close>; \<open>bot_fid\<close> and \<open>bot_name\<close> are \<^verbatim>\<open>BOT_FID\<close> and \<^verbatim>\<open>BOT_NAME\<close>.
\<close>

record agent_env =
  zora :: zora_env
  platform_address :: string
  bot_fid :: nat
  bot_name :: "string option"
  getUserEthereumAddress :: "nat \<Rightarrow> string option"
  getCastByHash :: "string \<Rightarrow> farcaster_cast option"
  analyzeImage :: "string \<Rightarrow> thrown + image_analysis option"
  getUserContext :: "nat \<Rightarrow> thrown + user_context"
  callClaude :: "claude_request \<Rightarrow> thrown + string"
  parse_decision :: "string \<Rightarrow> agent_decision option"
  parse_token_info :: "string \<Rightarrow> parsed_token_info option"
  buildMetadataUri :: "string option \<Rightarrow> string option \<Rightarrow> string \<Rightarrow> thrown + string"
  insert_ledger :: "ledger_row \<Rightarrow> thrown option"
  insert_conversation :: "conversation_row \<Rightarrow> thrown option"

text \<open>An optional string inside a template string.\<close>

fun render :: "string option \<Rightarrow> string" where
  "render None = ''undefined''"
| "render (Some s) = s"

definition nl :: string where
  "nl = [newline]"

text \<open>The fixed reply texts.\<close>

definition need_address_reply :: string where
  "need_address_reply = ''need a verified ethereum address first!''"

definition need_image_reply :: string where
  "need_image_reply = ''need an image to create your token!''"

definition creation_failed_reply :: string where
  "creation_failed_reply = ''sorry, hit a creative block! try again''"

definition creative_block_reply :: string where
  "creative_block_reply =
     ''sorry, i'' @ [squote] @ ''m having a creative block right now! try again in a moment''"

text \<open>\<^verbatim>\<open>Tokenized cast: "${text.slice(0, 100)}${text.length > 100 ? '...' : ''}"\<close>\<close>

definition tokenized_description :: "string \<Rightarrow> string" where
  "tokenized_description txt =
     ''Tokenized cast: '' @ [dquote] @ take 100 txt @ (if length txt > 100 then ''...'' else [])
       @ [dquote]"

text \<open>\<^verbatim>\<open>author.display_name || author.username\<close>\<close>

definition author_label :: "farcaster_cast \<Rightarrow> string" where
  "author_label c =
     (if display_name (author c) \<noteq> [] then display_name (author c) else username (author c))"

text \<open>The characters removed by \<^verbatim>\<open>/[\u0000-\u001F\u007F-\u009F]/g\<close>, in the ASCII range.\<close>

definition isControl :: "char \<Rightarrow> bool" where
  "isControl c = (let n = (of_char c :: nat) in n < 32 \<or> n = 127)"

definition naming_fallback :: "farcaster_cast \<Rightarrow> token_info" where
  "naming_fallback targetCast =
     \<lparr>ti_name = author_label targetCast @ '' Cast'', ti_symbol = ''CAST'',
      ti_description = tokenized_description (cast_text targetCast)\<rparr>"

definition analyzeCastForTokenCreation ::
  "agent_env \<Rightarrow> farcaster_cast \<Rightarrow> agent_event list \<times> token_info" where
  "analyzeCastForTokenCreation env targetCast =
     (let explicitName = extractExplicitName (cast_text targetCast);
          explicitSymbol = extractExplicitSymbol (cast_text targetCast)
      in if truthy explicitName
         then ([],
               \<lparr>ti_name = render explicitName,
                ti_symbol = or_default explicitSymbol (generateSymbolFromName (render explicitName)),
                ti_description = tokenized_description (cast_text targetCast)\<rparr>)
         else (let cleanText = trim (filter (\<lambda>c. \<not> isControl c) (cast_text targetCast));
                   request = CastNamingRequest cleanText (author_label targetCast)
               in case callClaude env request of
                    Inl e \<Rightarrow> ([ClaudeCall request], naming_fallback targetCast)
                  | Inr response \<Rightarrow>
                      (case parse_token_info env response of
                         None \<Rightarrow> ([ClaudeCall request], naming_fallback targetCast)
                       | Some parsed \<Rightarrow>
                           ([ClaudeCall request],
                            \<lparr>ti_name = or_default (pt_name parsed)
                                        (author_label targetCast @ '' Cast''),
                             ti_symbol = or_default (pt_symbol parsed) ''CAST'',
                             ti_description = or_default (pt_description parsed)
                               (tokenized_description (cast_text targetCast))\<rparr>))))"

text \<open>\<^verbatim>\<open>xs.join(', ')\<close>\<close>

fun join_comma :: "string list \<Rightarrow> string" where
  "join_comma [] = []"
| "join_comma [x] = x"
| "join_comma (x # y # ys) = x @ '', '' @ join_comma (y # ys)"

definition buildContextText ::
  "farcaster_cast \<Rightarrow> image_analysis option \<Rightarrow> user_context \<Rightarrow> string" where
  "buildContextText cast imageAnalysis userContext =
     (let explicitName = extractExplicitName (cast_text cast);
          explicitSymbol = extractExplicitSymbol (cast_text cast)
      in ''User message: '' @ [dquote] @ cast_text cast @ [dquote] @ nl
         @ (if truthy explicitName
            then nl @ ''IMPORTANT: User explicitly requested name: '' @ [dquote]
                 @ render explicitName @ [dquote] @ '' - you MUST use this exact name'' @ nl
            else [])
         @ (if truthy explicitSymbol
            then nl @ ''IMPORTANT: User explicitly requested symbol: '' @ [dquote]
                 @ render explicitSymbol @ [dquote] @ '' - you MUST use this exact symbol'' @ nl
            else [])
         @ (case imageAnalysis of
              None \<Rightarrow> []
            | Some a \<Rightarrow>
                nl @ ''Image: '' @ artistic_style a @ '', '' @ mood a
                @ (if \<not> truthy explicitName
                   then nl @ ''Suggested names: '' @ join_comma (suggested_names a) else []))
         @ nl @ ''User has created '' @ show_nat (creation_count userContext) @ '' tokens''
         @ (case recent_actions userContext of
              [] \<Rightarrow> []
            | a # _ \<Rightarrow> nl @ ''Recent: '' @ a))"

text \<open>\<^verbatim>\<open>xs[0]\<close> of a list: \<^verbatim>\<open>undefined\<close> when the list is empty.\<close>

fun first_of :: "string list \<Rightarrow> string option" where
  "first_of [] = None"
| "first_of (x # _) = Some x"

text \<open>The decision of the \<^verbatim>\<open>catch\<close> block of \<^verbatim>\<open>makeRegularDecision\<close>.\<close>

definition fallback_decision ::
  "farcaster_cast \<Rightarrow> image_analysis option \<Rightarrow> agent_decision" where
  "fallback_decision cast imageAnalysis =
     (let explicitName = extractExplicitName (cast_text cast);
          explicitSymbol = extractExplicitSymbol (cast_text cast);
          txt = toLowerCase (cast_text cast)
      in case imageAnalysis of
           None \<Rightarrow>
             \<lparr>action = ''help'', message = ''hi! share an image to create a token'',
              suggested_name = None, suggested_symbol = None, metadata_description = None\<rparr>
         | Some a \<Rightarrow>
             if str_includes txt ''coin'' \<or> str_includes txt ''token''
             then \<lparr>action = ''create_token'',
                   message =
                     (if truthy explicitName
                      then ''beautiful '' @ or_default (Some (artistic_style a)) ''artwork''
                           @ ''! creating your '' @ [dquote] @ render explicitName @ [dquote]
                           @ '' token now''
                      else ''creating your token now!''),
                   suggested_name =
                     Some (or_default explicitName
                             (or_default (first_of (suggested_names a)) ''Creative Vision'')),
                   suggested_symbol =
                     Some (or_default explicitSymbol
                             (or_default (first_of (suggested_symbols a)) ''CREATE'')),
                   metadata_description =
                     Some (or_default (Some (visual_description a)) ''A creative work'')\<rparr>
             else \<lparr>action = ''encourage'',
                   message = ''beautiful work! want to turn this into a token?'',
                   suggested_name = None, suggested_symbol = None,
                   metadata_description = None\<rparr>)"

definition makeRegularDecision ::
  "agent_env \<Rightarrow> farcaster_cast \<Rightarrow> image_analysis option \<Rightarrow> user_context
     \<Rightarrow> agent_event list \<times> agent_decision" where
  "makeRegularDecision env cast imageAnalysis userContext =
     (let explicitName = extractExplicitName (cast_text cast);
          explicitSymbol = extractExplicitSymbol (cast_text cast);
          contextText = buildContextText cast imageAnalysis userContext;
          request = DecisionRequest contextText
      in case callClaude env request of
           Inl e \<Rightarrow> ([ClaudeCall request], fallback_decision cast imageAnalysis)
         | Inr response \<Rightarrow>
             (case parse_decision env response of
                None \<Rightarrow> ([ClaudeCall request], fallback_decision cast imageAnalysis)
              | Some decision \<Rightarrow>
                  ([ClaudeCall request],
                   if truthy explicitName \<and> action decision = ''create_token''
                   then decision
                          \<lparr>suggested_name := explicitName,
                           suggested_symbol :=
                             Some (or_default explicitSymbol
                                     (generateSymbolFromName (render explicitName)))\<rparr>
                   else decision)))"

text \<open>
  \<^verbatim>\<open>executeTokenCreation\<close>. Everything after the dry-run check runs inside one \<^verbatim>\<open>try\<close>; its
  \<^verbatim>\<open>catch\<close> answers with the fixed failure text.
\<close>

definition success_reply :: "string \<Rightarrow> string \<Rightarrow> string" where
  "success_reply msg zoraUrl = msg @ nl @ nl @ ''your creation is zoined!'' @ nl @ nl @ zoraUrl"

text \<open>The parameters of the issuance call and the ledger row, as both sequences build them.\<close>

definition issuance_params ::
  "agent_env \<Rightarrow> string option \<Rightarrow> string option \<Rightarrow> string \<Rightarrow> string \<Rightarrow> coin_params" where
  "issuance_params env name symbol metadataUri creatorAddress =
     \<lparr>cp_name = name, cp_symbol = symbol, cp_uri = metadataUri,
      cp_payoutRecipient = creatorAddress,
      cp_platformReferrer = Some (platform_address env)\<rparr>"

definition creation_row ::
  "agent_env \<Rightarrow> farcaster_cast \<Rightarrow> coin_result \<Rightarrow> string option \<Rightarrow> string option \<Rightarrow> string
     \<Rightarrow> nat option \<Rightarrow> string option \<Rightarrow> ledger_row" where
  "creation_row env cast result name symbol imageUrl analysisId description =
     \<lparr>lr_fid = fid (author cast),
      token_address = result_address result,
      token_name = name,
      token_symbol = symbol,
      lr_image_url = imageUrl,
      image_analysis_id = analysisId,
      ai_generated_description = description,
      user_prompt = cast_text cast,
      zora_url = generateZoraUrl (result_address result) (platform_address env),
      transaction_hash = result_hash result\<rparr>"

definition executeTokenCreation ::
  "agent_env \<Rightarrow> agent_decision \<Rightarrow> farcaster_cast \<Rightarrow> image_analysis option
     \<Rightarrow> agent_event list" where
  "executeTokenCreation env decision cast imageAnalysis =
     (let reply = Reply (fid (author cast)) (hash cast)
      in if dry_run (zora env)
         then [reply (message decision @ nl @ nl @ ''DRY RUN: Token '' @ [dquote]
                        @ render (suggested_name decision) @ [dquote] @ '' would be created!'')]
         else (let creatorAddress = getUserEthereumAddress env (fid (author cast));
                   imageUrl = extractImageFromCast cast
               in if \<not> truthy creatorAddress \<or> \<not> truthy imageUrl
                  then [reply (if \<not> truthy creatorAddress then need_address_reply
                               else need_image_reply)]
                  else (case buildMetadataUri env (suggested_name decision)
                               (suggested_symbol decision) (render imageUrl) of
                          Inl e \<Rightarrow> [reply creation_failed_reply]
                        | Inr metadataUri \<Rightarrow>
                            (case createCoin (zora env)
                                    (issuance_params env (suggested_name decision)
                                       (suggested_symbol decision) metadataUri
                                       (render creatorAddress)) of
                               (zevs, Inl e) \<Rightarrow> map Zora zevs @ [reply creation_failed_reply]
                             | (zevs, Inr result) \<Rightarrow>
                                 (let zoraUrl = generateZoraUrl (result_address result)
                                                  (platform_address env);
                                      row = creation_row env cast result
                                              (suggested_name decision)
                                              (suggested_symbol decision) (render imageUrl)
                                              (case imageAnalysis of None \<Rightarrow> None
                                               | Some a \<Rightarrow> ia_id a)
                                              (metadata_description decision)
                                  in map Zora zevs
                                     @ [reply (success_reply (message decision) zoraUrl)]
                                     @ (case insert_ledger env row of
                                          None \<Rightarrow> [LedgerInsert row]
                                        | Some e \<Rightarrow> [reply creation_failed_reply]))))))"

text \<open>\<^verbatim>\<open>executeCastTokenCreation\<close>, the same sequence for a token made from a cast.\<close>

definition cast_success_reply :: "string \<Rightarrow> string \<Rightarrow> string \<Rightarrow> string" where
  "cast_success_reply msg user zoraUrl =
     msg @ nl @ nl @ ''your creation is zoined!'' @ nl @ nl @ ''tokenized cast by @'' @ user
       @ nl @ nl @ zoraUrl"

definition executeCastTokenCreation ::
  "agent_env \<Rightarrow> agent_decision \<Rightarrow> farcaster_cast \<Rightarrow> string option \<Rightarrow> farcaster_cast
     \<Rightarrow> agent_event list" where
  "executeCastTokenCreation env decision cast imageUrl targetCast =
     (let reply = Reply (fid (author cast)) (hash cast)
      in if dry_run (zora env)
         then [reply (message decision @ nl @ nl @ ''DRY RUN: Token '' @ [dquote]
                        @ render (suggested_name decision) @ [dquote]
                        @ '' would be created from cast by '' @ username (author targetCast)
                        @ ''!'')]
         else (let creatorAddress = getUserEthereumAddress env (fid (author cast))
               in if \<not> truthy creatorAddress \<or> \<not> truthy imageUrl
                  then [reply (if \<not> truthy creatorAddress then need_address_reply
                               else need_image_reply)]
                  else (let tokenName = or_default (suggested_name decision)
                                          (''Cast by '' @ username (author targetCast));
                            tokenSymbol = or_default (suggested_symbol decision) ''CAST'';
                            description = or_default (metadata_description decision)
                                            (tokenized_description (cast_text targetCast))
                        in case buildMetadataUri env (Some tokenName) (Some tokenSymbol)
                                  (render imageUrl) of
                             Inl e \<Rightarrow> [reply creation_failed_reply]
                           | Inr metadataUri \<Rightarrow>
                               (case createCoin (zora env)
                                       (issuance_params env (Some tokenName) (Some tokenSymbol)
                                          metadataUri (render creatorAddress)) of
                                  (zevs, Inl e) \<Rightarrow>
                                    map Zora zevs @ [reply creation_failed_reply]
                                | (zevs, Inr result) \<Rightarrow>
                                    (let zoraUrl = generateZoraUrl (result_address result)
                                                     (platform_address env);
                                         row = creation_row env cast result (Some tokenName)
                                                 (Some tokenSymbol) (render imageUrl) None
                                                 (Some description)
                                     in map Zora zevs
                                        @ [reply (cast_success_reply (message decision)
                                                    (username (author targetCast)) zoraUrl)]
                                        @ (case insert_ledger env row of
                                             None \<Rightarrow> [LedgerInsert row]
                                           | Some e \<Rightarrow> [reply creation_failed_reply]))))))"

text \<open>\<^verbatim>\<open>OGImageService.generateCastImageUrl\<close>\<close>

definition generateCastImageUrl :: "farcaster_cast \<Rightarrow> string" where
  "generateCastImageUrl cast = ''https://client.farcaster.xyz/v2/og-image?castHash='' @ hash cast"

text \<open>
  \<^verbatim>\<open>processCastTokenRequest\<close>: the target is the parent cast when the cast is a reply and the
  parent can be fetched. Nothing here throws.
\<close>

definition resolve_target :: "agent_env \<Rightarrow> farcaster_cast \<Rightarrow> farcaster_cast" where
  "resolve_target env cast =
     (if truthy (parent_hash cast)
      then (case getCastByHash env (render (parent_hash cast)) of
              Some parentCast \<Rightarrow> parentCast
            | None \<Rightarrow> cast)
      else cast)"

definition processCastTokenRequest :: "agent_env \<Rightarrow> farcaster_cast \<Rightarrow> agent_event list" where
  "processCastTokenRequest env cast =
     (let targetCast = resolve_target env cast;
          imageUrl = generateCastImageUrl targetCast
      in case analyzeCastForTokenCreation env targetCast of
           (aevs, tokenInfo) \<Rightarrow>
             aevs @ executeCastTokenCreation env
                      \<lparr>action = ''create_cast_token'',
                       message = ''turning this cast into a token!'',
                       suggested_name = Some (ti_name tokenInfo),
                       suggested_symbol = Some (ti_symbol tokenInfo),
                       metadata_description = Some (ti_description tokenInfo)\<rparr>
                      cast (Some imageUrl) targetCast)"

text \<open>\<^verbatim>\<open>storeConversation\<close>: the row it inserts.\<close>

definition conversation_of ::
  "farcaster_cast \<Rightarrow> agent_decision \<Rightarrow> image_analysis option \<Rightarrow> conversation_row" where
  "conversation_of cast decision imageAnalysis =
     \<lparr>cv_fid = fid (author cast), cv_cast_hash = hash cast, user_message = cast_text cast,
      agent_response = message decision,
      cv_image_url = (case imageAnalysis of None \<Rightarrow> None | Some a \<Rightarrow> Some (ia_image_url a)),
      cv_image_analysis_id = (case imageAnalysis of None \<Rightarrow> None | Some a \<Rightarrow> ia_id a),
      action_taken = action decision\<rparr>"

text \<open>
  \<^verbatim>\<open>processRegularTokenRequest\<close>: the effects made, and the error thrown to the caller if
  \<^verbatim>\<open>analyzeImage\<close>, \<^verbatim>\<open>getUserContext\<close> or the insert of the conversation throws.
\<close>

definition processRegularTokenRequest ::
  "agent_env \<Rightarrow> farcaster_cast \<Rightarrow> agent_event list \<times> thrown option" where
  "processRegularTokenRequest env cast =
     (let imageUrl = extractImageFromCast cast
      in case (if truthy imageUrl then analyzeImage env (render imageUrl) else Inr None) of
           Inl e \<Rightarrow> ([], Some e)
         | Inr imageAnalysis \<Rightarrow>
             (case getUserContext env (fid (author cast)) of
                Inl e \<Rightarrow> ([], Some e)
              | Inr userContext \<Rightarrow>
                  (case makeRegularDecision env cast imageAnalysis userContext of
                     (devs, decision) \<Rightarrow>
                       (let xevs =
                              (if action decision = ''create_token''
                               then executeTokenCreation env decision cast imageAnalysis
                               else [Reply (fid (author cast)) (hash cast)
                                       (message decision)]);
                            row = conversation_of cast decision imageAnalysis
                        in case insert_conversation env row of
                             None \<Rightarrow> (devs @ xevs @ [ConversationInsert row], None)
                           | Some e \<Rightarrow> (devs @ xevs, Some e)))))"

text \<open>\<^verbatim>\<open>processInteraction\<close>: the \<^verbatim>\<open>catch\<close> answers with the creative-block text.\<close>

definition processInteraction :: "agent_env \<Rightarrow> farcaster_cast \<Rightarrow> agent_event list" where
  "processInteraction env cast =
     (case (if isRequestToCoinCast (cast_text cast)
            then (processCastTokenRequest env cast, None)
            else processRegularTokenRequest env cast) of
        (evs, None) \<Rightarrow> evs
      | (evs, Some e) \<Rightarrow>
          evs @ [Reply (fid (author cast)) (hash cast) creative_block_reply])"

section \<open>ai-bot-service.ts and the webhook route\<close>

text \<open>\<^verbatim>\<open>NeynarBotService.castMentionsBot\<close>\<close>

definition castMentionsBot :: "agent_env \<Rightarrow> farcaster_cast \<Rightarrow> bool" where
  "castMentionsBot env cast =
     (if bot_fid env \<in> set (or_empty (mentions cast)) then True
      else (let botName = or_default (bot_name env) ''zoiner'';
                usernameFormat = ''@'' @ toLowerCase botName;
                fidFormat = ''@!'' @ show_nat (bot_fid env);
                lowerText = toLowerCase (cast_text cast)
            in cast_text cast \<noteq> []
               \<and> (str_includes lowerText usernameFormat \<or> str_includes lowerText fidFormat)))"

text \<open>\<^verbatim>\<open>AIBotService.isRecentBotInteraction\<close>: a reply within 10 seconds of a cast of the bot.\<close>

definition isRecentBotInteraction :: "agent_env \<Rightarrow> farcaster_cast \<Rightarrow> bool" where
  "isRecentBotInteraction env cast =
     (if truthy (parent_hash cast)
      then (case getCastByHash env (render (parent_hash cast)) of
              None \<Rightarrow> False
            | Some parentCast \<Rightarrow>
                fid (author parentCast) = bot_fid env
                \<and> timestamp cast - timestamp parentCast < 10000)
      else False)"

text \<open>
  \<^verbatim>\<open>AIBotService.processCast\<close> with the set \<^verbatim>\<open>processedCasts\<close> of the service instance as
  state. No call inside its \<^verbatim>\<open>try\<close> throws, so its \<^verbatim>\<open>catch\<close> is never entered.
\<close>

definition processCast ::
  "agent_env \<Rightarrow> string set \<Rightarrow> string \<Rightarrow> agent_event list \<times> string set" where
  "processCast env processedCasts castHash =
     (if castHash \<in> processedCasts then ([], processedCasts)
      else (let processed = insert castHash processedCasts
            in case getCastByHash env castHash of
                 None \<Rightarrow> ([], processed)
               | Some cast \<Rightarrow>
                   if fid (author cast) = bot_fid env then ([], processed)
                   else if \<not> castMentionsBot env cast then ([], processed)
                   else if isRecentBotInteraction env cast then ([], processed)
                   else (processInteraction env cast, processed)))"

record webhook_event =
  event_type :: string
  event_hash :: string

datatype webhook_response =
    Ignored_event_type
  | Cooldown_active
  | Initialization_failed
  | Completed
  | Internal_error

definition COOLDOWN_MS :: int where
  "COOLDOWN_MS = 30000"

text \<open>\<^verbatim>\<open>for (const [hash, timestamp] of processingCooldown.entries())\<close> with its \<^verbatim>\<open>delete\<close>\<close>

definition evict_older :: "int \<Rightarrow> (string \<rightharpoonup> int) \<Rightarrow> (string \<rightharpoonup> int)" where
  "evict_older hourAgo cooldown =
     (\<lambda>h. case cooldown h of
             None \<Rightarrow> None
           | Some seen \<Rightarrow> if seen < hourAgo then None else Some seen)"

text \<open>
  The handler \<^verbatim>\<open>POST\<close> of the agent's webhook route, with the module-level map
  \<^verbatim>\<open>processingCooldown\<close> as state. \<open>event\<close> is \<open>None\<close> for a body that cannot be read, \<open>now\<close> is
  \<^verbatim>\<open>Date.now()\<close>, \<open>init_ok\<close> tells whether \<^verbatim>\<open>initializeAIBotService\<close> returns a service. Each
  request builds a new service, whose set of processed casts starts empty. \<^verbatim>\<open>processCast\<close>
  never throws, so the branch of the handler that deletes the cooldown entry after a
  processing error is never taken. The result is the response, the effects of the agent and
  the new map.
\<close>

definition POST ::
  "agent_env \<Rightarrow> bool \<Rightarrow> int \<Rightarrow> webhook_event option \<Rightarrow> (string \<rightharpoonup> int)
     \<Rightarrow> webhook_response \<times> agent_event list \<times> (string \<rightharpoonup> int)" where
  "POST env init_ok now event processingCooldown =
     (case event of
        None \<Rightarrow> (Internal_error, [], processingCooldown)
      | Some ev \<Rightarrow>
          if event_type ev \<noteq> ''cast.created'' then (Ignored_event_type, [], processingCooldown)
          else (let castHash = event_hash ev;
                    lastProcessed = processingCooldown castHash
                in if (case lastProcessed of
                         None \<Rightarrow> False
                       | Some t \<Rightarrow> t \<noteq> 0 \<and> now - t < COOLDOWN_MS)
                   then (Cooldown_active, [], processingCooldown)
                   else (let cooldown = evict_older (now - 60 * 60 * 1000)
                                          (processingCooldown(castHash \<mapsto> now))
                         in if \<not> init_ok then (Initialization_failed, [], cooldown)
                            else (Completed, fst (processCast env {} castHash), cooldown))))"

section \<open>Observations on a trace, and example inputs\<close>

fun reply_texts :: "agent_event list \<Rightarrow> string list" where
  "reply_texts [] = []"
| "reply_texts (Reply f h t # evs) = t # reply_texts evs"
| "reply_texts (ev # evs) = reply_texts evs"

fun ledger_rows :: "agent_event list \<Rightarrow> ledger_row list" where
  "ledger_rows [] = []"
| "ledger_rows (LedgerInsert row # evs) = row # ledger_rows evs"
| "ledger_rows (ev # evs) = ledger_rows evs"

fun conversation_rows :: "agent_event list \<Rightarrow> conversation_row list" where
  "conversation_rows [] = []"
| "conversation_rows (ConversationInsert row # evs) = row # conversation_rows evs"
| "conversation_rows (ev # evs) = conversation_rows evs"

fun claude_calls :: "agent_event list \<Rightarrow> claude_request list" where
  "claude_calls [] = []"
| "claude_calls (ClaudeCall r # evs) = r # claude_calls evs"
| "claude_calls (ev # evs) = claude_calls evs"

fun sdk_calls :: "agent_event list \<Rightarrow> nat list" where
  "sdk_calls [] = []"
| "sdk_calls (Zora (SdkCall p k) # evs) = k # sdk_calls evs"
| "sdk_calls (ev # evs) = sdk_calls evs"

definition alice :: farcaster_user where
  "alice = \<lparr>fid = 7, username = ''alice'', display_name = ''Alice''\<rparr>"

text \<open>A mention with an attached image and an explicit name and ticker.\<close>

definition wave_cast :: farcaster_cast where
  "wave_cast =
     \<lparr>hash = ''0xA'', parent_hash = None, author = alice,
      cast_text = ''@zoiner mint this: Wave Rider, ticker: WAVE'', timestamp = 1000,
      embeds = Some
        [\<lparr>embed_url = Some ''https://x/y.png'', embed_title = None, embed_description = None,
          embed_image = None, embed_mimetype = Some ''image/png''\<rparr>],
      mentions = Some [99], embedded_media = None, image_urls = None, images = None\<rparr>"

text \<open>A mention asking to turn the cast itself into a token.\<close>

definition coin_this_cast :: farcaster_cast where
  "coin_this_cast =
     \<lparr>hash = ''0xB'', parent_hash = None, author = alice,
      cast_text = ''@zoiner coin this cast'', timestamp = 2000,
      embeds = None, mentions = Some [99], embedded_media = None, image_urls = None,
      images = None\<rparr>"

definition wave_analysis :: image_analysis where
  "wave_analysis =
     \<lparr>ia_id = Some 1, ia_image_url = ''https://x/y.png'', artistic_style = ''watercolor'',
      mood = ''calm'', suggested_names = [''Ocean''], suggested_symbols = [''OCN''],
      visual_description = ''a wave''\<rparr>"

definition advisory_decision :: agent_decision where
  "advisory_decision =
     \<lparr>action = ''create_token'', message = ''what a wave!'', suggested_name = Some ''Ocean'',
      suggested_symbol = Some ''OCN'', metadata_description = Some ''a wave at dawn''\<rparr>"

text \<open>
  An environment in which everything works; the issuance succeeds on the third attempt, as in
  \<open>third_time_env\<close>.
\<close>

definition working_env :: agent_env where
  "working_env =
     \<lparr>zora = third_time_env, platform_address = ''0xdef'', bot_fid = 99, bot_name = None,
      getUserEthereumAddress = (\<lambda>f. Some ''0xabc''),
      getCastByHash =
        (\<lambda>h. if h = ''0xA'' then Some wave_cast
              else if h = ''0xB'' then Some coin_this_cast else None),
      analyzeImage = (\<lambda>u. Inr (Some wave_analysis)),
      getUserContext = (\<lambda>f. Inr \<lparr>uc_fid = f, recent_actions = [], creation_count = 0\<rparr>),
      callClaude = (\<lambda>r. Inr ''answer''),
      parse_decision = (\<lambda>s. Some advisory_decision),
      parse_token_info =
        (\<lambda>s. Some \<lparr>pt_name = Some ''GM Energy'', pt_symbol = Some ''GM'',
                     pt_description = Some ''daily dose''\<rparr>),
      buildMetadataUri = (\<lambda>n s i. Inr ipfs_uri),
      insert_ledger = (\<lambda>r. None),
      insert_conversation = (\<lambda>r. None)\<rparr>"

text \<open>The same environment with an SDK that always fails with another error.\<close>

definition reverting_env :: agent_env where
  "reverting_env =
     working_env
       \<lparr>zora := third_time_env
          \<lparr>sdk_createCoin := (\<lambda>p k. Inl (JsError ''execution reverted''))\<rparr>\<rparr>"

definition created :: "string \<Rightarrow> webhook_event" where
  "created h = \<lparr>event_type = ''cast.created'', event_hash = h\<rparr>"

text \<open>
  The cooldown map the handler holds after two accepted deliveries, starting from the empty
  map: the hash \<open>0xold\<close> at time 1 and the hash \<open>0xA\<close> one hour later, at time 3600000.
\<close>

definition reached_cooldown :: "string \<rightharpoonup> int" where
  "reached_cooldown =
     snd (snd (POST working_env True 3600000 (Some (created ''0xA''))
                 (snd (snd (POST working_env True 1 (Some (created ''0xold'')) Map.empty)))))"

text \<open>
  Two requests that differ in one word, "token called" and "coin called", and a mention with
  an image that carries the first one.
\<close>

definition token_called_text :: string where
  "token_called_text = ''@zoiner create a token called '' @ dquote # ''Sunset Dream'' @ [dquote]"

definition coin_called_text :: string where
  "coin_called_text = ''@zoiner create a coin called '' @ dquote # ''Sunset Dream'' @ [dquote]"

definition sunset_cast :: farcaster_cast where
  "sunset_cast =
     \<lparr>hash = ''0xD'', parent_hash = None, author = alice,
      cast_text = token_called_text, timestamp = 3000,
      embeds = Some
        [\<lparr>embed_url = Some ''https://x/y.png'', embed_title = None, embed_description = None,
          embed_image = None, embed_mimetype = Some ''image/png''\<rparr>],
      mentions = Some [99], embedded_media = None, image_urls = None, images = None\<rparr>"

text \<open>A reply to that cast asking to turn it into a token, and an environment that knows it.\<close>

definition coin_sunset_cast :: farcaster_cast where
  "coin_sunset_cast =
     \<lparr>hash = ''0xE'', parent_hash = Some ''0xD'', author = alice,
      cast_text = ''@zoiner coin this cast'', timestamp = 4000,
      embeds = None, mentions = Some [99], embedded_media = None, image_urls = None,
      images = None\<rparr>"

definition sunset_env :: agent_env where
  "sunset_env =
     working_env\<lparr>getCastByHash := (\<lambda>h. if h = ''0xD'' then Some sunset_cast else None)\<rparr>"

text \<open>A cast whose only image is in the list \<^verbatim>\<open>images\<close>.\<close>

definition images_only_cast :: farcaster_cast where
  "images_only_cast =
     \<lparr>hash = ''0xC'', parent_hash = None,
      author = \<lparr>fid = 7, username = ''alice'', display_name = ''Alice''\<rparr>,
      cast_text = ''@zoiner make a token'', timestamp = 0,
      embeds = None, mentions = None, embedded_media = None, image_urls = None,
      images = Some [''https://x/z'']\<rparr>"



section \<open>Properties of the string operations\<close>
lemma ws_tokens_Nil [simp]: "ws_tokens [] = []"
  by (simp add: ws_tokens.simps)

lemma ws_tokens_space [simp]: "isSpace c \<Longrightarrow> ws_tokens (c # cs) = ws_tokens cs"
  by (subst ws_tokens.simps, subst (2) ws_tokens.simps) simp

lemma ws_tokens_nonspace:
  "\<not> isSpace c \<Longrightarrow> ws_tokens (c # cs) =
     (c # takeWhile (\<lambda>x. \<not> isSpace x) cs) # ws_tokens (dropWhile (\<lambda>x. \<not> isSpace x) cs)"
  by (subst ws_tokens.simps) simp

lemma ws_tokens_all_spaces: "\<forall>c\<in>set w. isSpace c \<Longrightarrow> ws_tokens w = []"
  by (induction w) auto

lemma ws_tokens_eq_Nil: "ws_tokens s = [] \<longleftrightarrow> (\<forall>c\<in>set s. isSpace c)"
proof (induction s)
  case Nil
  show ?case by simp
next
  case (Cons c cs)
  then show ?case by (cases "isSpace c") (auto simp: ws_tokens_nonspace)
qed

lemma ws_tokens_nonempty: "w \<in> set (ws_tokens s) \<Longrightarrow> w \<noteq> []"
proof (induction s arbitrary: w rule: length_induct)
  case (1 s)
  show ?case
  proof (cases s)
    case Nil
    then show ?thesis using 1(2) by simp
  next
    case (Cons c cs)
    show ?thesis
    proof (cases "isSpace c")
      case True
      then have "w \<in> set (ws_tokens cs)" using 1(2) Cons by simp
      moreover have "length cs < length s" using Cons by simp
      ultimately show ?thesis using 1(1) by blast
    next
      case False
      let ?d = "dropWhile (\<lambda>x. \<not> isSpace x) cs"
      have len: "length ?d < length s"
        using Cons length_dropWhile_le [of "\<lambda>x. \<not> isSpace x" cs] by simp
      have "w = c # takeWhile (\<lambda>x. \<not> isSpace x) cs \<or> w \<in> set (ws_tokens ?d)"
        using 1(2) Cons False by (simp add: ws_tokens_nonspace)
      then show ?thesis using 1(1) len by blast
    qed
  qed
qed

lemma last_dropWhile_nonempty:
  "dropWhile P xs \<noteq> [] \<Longrightarrow> last (dropWhile P xs) = last xs"
  by (induction xs) (auto split: if_splits)

lemma dropWhile_Nil_last:
  "dropWhile P xs = [] \<Longrightarrow> xs \<noteq> [] \<Longrightarrow> P (last xs)"
  by (induction xs) (auto split: if_splits)

lemma single_token_is_text:
  assumes "s \<noteq> []" "\<not> isSpace (hd s)" "\<not> isSpace (last s)" "length (ws_tokens s) \<le> 1"
  shows "ws_tokens s = [s]"
proof -
  obtain c cs where s: "s = c # cs" using assms(1) by (cases s) auto
  let ?P = "\<lambda>x. \<not> isSpace x"
  have c: "\<not> isSpace c" using assms(2) s by simp
  have tok: "ws_tokens (c # cs) = (c # takeWhile ?P cs) # ws_tokens (dropWhile ?P cs)"
    using c by (rule ws_tokens_nonspace)
  have "length (ws_tokens (c # cs)) \<le> 1" using assms(4) s by simp
  then have "ws_tokens (dropWhile ?P cs) = []" unfolding tok by simp
  then have sp: "\<forall>x\<in>set (dropWhile ?P cs). isSpace x" by (simp only: ws_tokens_eq_Nil)
  have d: "dropWhile ?P cs = []"
  proof (rule ccontr)
    assume ne: "dropWhile ?P cs \<noteq> []"
    have csne: "cs \<noteq> []"
    proof
      assume "cs = []"
      then have "dropWhile ?P cs = []" by (simp only: dropWhile.simps)
      with ne show False by blast
    qed
    have "last (dropWhile ?P cs) = last cs"
      using ne by (rule last_dropWhile_nonempty)
    moreover have "last s = last cs" using s csne by (simp only: last.simps if_False)
    moreover have "last (dropWhile ?P cs) \<in> set (dropWhile ?P cs)" using ne by (rule last_in_set)
    ultimately have "isSpace (last s)" using sp by metis
    then show False using assms(3) by blast
  qed
  have "takeWhile ?P cs @ dropWhile ?P cs = cs" by (rule takeWhile_dropWhile_id)
  then have t: "takeWhile ?P cs = cs" by (simp only: d append_Nil2)
  have "ws_tokens (c # cs) = [c # cs]" by (simp only: tok t d ws_tokens_Nil)
  then show ?thesis by (simp only: s)
qed

lemma split_ws_not_Nil [simp]: "split_ws s \<noteq> []"
  by (induction s rule: split_ws.induct) (auto split: list.splits)

lemma ws_tokens_dropWhile [simp]: "ws_tokens (dropWhile isSpace s) = ws_tokens s"
  by (induction s) auto

lemma split_ws_tokens:
  "split_ws s = (if s \<noteq> [] \<and> isSpace (hd s) then [[]] else [])
                @ ws_tokens s
                @ (if s = [] \<or> isSpace (last s) then [[]] else [])"
proof (induction s rule: split_ws.induct)
  case 1 show ?case by simp
next
  case (2 c cs)
  show ?case
  proof (cases "isSpace c")
    case True
    let ?d = "dropWhile isSpace cs"
    have hd: "?d \<noteq> [] \<Longrightarrow> \<not> isSpace (hd ?d)" by (rule hd_dropWhile)
    have lst: "(?d = [] \<or> isSpace (last ?d)) = isSpace (last (c # cs))"
    proof (cases "?d = []")
      case True
      then show ?thesis using \<open>isSpace c\<close> dropWhile_Nil_last [of isSpace cs] by auto
    next
      case False
      then have "cs \<noteq> []" by auto
      then show ?thesis using False last_dropWhile_nonempty [of isSpace cs] by auto
    qed
    have "split_ws (c # cs) = [] # split_ws ?d" using True by simp
    also have "split_ws ?d = ws_tokens ?d @ (if ?d = [] \<or> isSpace (last ?d) then [[]] else [])"
      using 2(1) [OF True] hd by auto
    finally show ?thesis using True lst by simp
  next
    case False
    note ih = 2(2) [OF False]
    show ?thesis
    proof (cases cs)
      case Nil
      then show ?thesis using False by (simp add: ws_tokens_nonspace)
    next
      case (Cons x xs)
      show ?thesis
      proof (cases "isSpace x")
        case True
        then show ?thesis using False ih Cons by (simp add: ws_tokens_nonspace)
      next
        case nx: False
        then show ?thesis using False ih Cons by (simp add: ws_tokens_nonspace)
      qed
    qed
  qed
qed

lemma ws_tokens_append_spaces:
  "\<forall>c\<in>set w. isSpace c \<Longrightarrow> ws_tokens (s @ w) = ws_tokens s"
proof (induction s rule: length_induct)
  case (1 s)
  note ih = 1(1) and w = 1(2)
  show ?case
  proof (cases s)
    case Nil
    then show ?thesis using w by (simp add: ws_tokens_all_spaces)
  next
    case (Cons a s')
    show ?thesis
    proof (cases "isSpace a")
      case True
      then show ?thesis using ih w Cons by simp
    next
      case False
      let ?P = "\<lambda>x. \<not> isSpace x"
      show ?thesis
      proof (cases "\<forall>x\<in>set s'. ?P x")
        case True
        have tw: "takeWhile ?P w = []" using w by (cases w) auto
        have dw: "dropWhile ?P w = w" using w by (cases w) auto
        have t1: "takeWhile ?P (s' @ w) = s'" using True tw by simp
        have d1: "dropWhile ?P (s' @ w) = w" using True dw by simp
        have t2: "takeWhile ?P s' = s'" and d2: "dropWhile ?P s' = []" using True by auto
        have "ws_tokens (a # s' @ w) = (a # s') # ws_tokens w"
          using False by (simp add: ws_tokens_nonspace t1 d1)
        moreover have "ws_tokens (a # s') = [a # s']"
          using False by (simp add: ws_tokens_nonspace t2 d2)
        ultimately show ?thesis using Cons w by (simp add: ws_tokens_all_spaces)
      next
        case nall: False
        then obtain x where x: "x \<in> set s'" "\<not> ?P x" by blast
        have t: "takeWhile ?P (s' @ w) = takeWhile ?P s'"
          using x by (intro takeWhile_append1) auto
        have d: "dropWhile ?P (s' @ w) = dropWhile ?P s' @ w"
          using x by (intro dropWhile_append1) auto
        have "length (dropWhile ?P s') < length s"
          using Cons length_dropWhile_le [of ?P s'] by simp
        then have "ws_tokens (dropWhile ?P s' @ w) = ws_tokens (dropWhile ?P s')"
          using ih w by blast
        then show ?thesis using False Cons t d by (simp add: ws_tokens_nonspace)
      qed
    qed
  qed
qed

lemma ws_tokens_trim [simp]: "ws_tokens (trim s) = ws_tokens s"
proof -
  let ?d = "dropWhile isSpace s"
  have "?d = rev (dropWhile isSpace (rev ?d)) @ rev (takeWhile isSpace (rev ?d))"
    by (metis rev_append rev_rev_ident takeWhile_dropWhile_id)
  moreover have "\<forall>c\<in>set (rev (takeWhile isSpace (rev ?d))). isSpace c"
    by (auto dest: set_takeWhileD)
  ultimately have "ws_tokens ?d = ws_tokens (trim s)"
    unfolding trim_def by (metis ws_tokens_append_spaces)
  then show ?thesis by simp
qed

lemma trim_hd: "trim s \<noteq> [] \<Longrightarrow> \<not> isSpace (hd (trim s))"
proof -
  assume a: "trim s \<noteq> []"
  let ?d = "dropWhile isSpace s"
  have d: "?d \<noteq> []"
  proof
    assume "?d = []"
    then have "trim s = []" by (simp only: trim_def rev.simps dropWhile.simps)
    with a show False by simp
  qed
  have "\<not> isSpace (hd ?d)" using d by (rule hd_dropWhile)
  have "?d = trim s @ rev (takeWhile isSpace (rev ?d))"
    unfolding trim_def by (metis rev_append rev_rev_ident takeWhile_dropWhile_id)
  then have "hd ?d = hd (trim s)" using a by (metis hd_append2)
  then show ?thesis using \<open>\<not> isSpace (hd ?d)\<close> by simp
qed

lemma trim_last: "trim s \<noteq> [] \<Longrightarrow> \<not> isSpace (last (trim s))"
proof -
  assume a: "trim s \<noteq> []"
  let ?r = "dropWhile isSpace (rev (dropWhile isSpace s))"
  have r: "?r \<noteq> []" using a by (simp add: trim_def)
  then have "\<not> isSpace (hd ?r)" by (rule hd_dropWhile)
  moreover have "last (trim s) = hd ?r" using r by (simp add: trim_def last_rev)
  ultimately show ?thesis by simp
qed

lemma split_ws_trim:
  "trim s \<noteq> [] \<Longrightarrow> split_ws (trim s) = ws_tokens s"
  using trim_hd [of s] trim_last [of s] by (simp add: split_ws_tokens)

lemma str_includes_iff: "str_includes s p \<longleftrightarrow> (\<exists>a b. s = a @ p @ b)"
proof (induction s)
  case Nil
  show ?case by auto
next
  case (Cons c cs)
  show ?case
  proof
    assume "str_includes (c # cs) p"
    then consider "prefix p (c # cs)" | "str_includes cs p" by auto
    then show "\<exists>a b. c # cs = a @ p @ b"
    proof cases
      case 1
      then obtain b where "c # cs = p @ b" by (auto simp: prefix_def)
      then have "c # cs = [] @ p @ b" by simp
      then show ?thesis by blast
    next
      case 2
      then obtain a b where "cs = a @ p @ b" using Cons by blast
      then have "c # cs = (c # a) @ p @ b" by simp
      then show ?thesis by blast
    qed
  next
    assume "\<exists>a b. c # cs = a @ p @ b"
    then obtain a b where ab: "c # cs = a @ p @ b" by blast
    show "str_includes (c # cs) p"
    proof (cases a)
      case Nil
      then have "prefix p (c # cs)" using ab by (simp add: prefix_def)
      then show ?thesis by simp
    next
      case (Cons x a')
      then have "cs = a' @ p @ b" using ab by simp
      then show ?thesis using Cons.IH by auto
    qed
  qed
qed
lemma toLower_toUpper_char: "toLowerChar (toUpperChar c) = toLowerChar c"
proof -
  let ?n = "of_char c :: nat"
  show ?thesis
  proof (cases "97 \<le> ?n \<and> ?n \<le> 122")
    case True
    then have u: "toUpperChar c = char_of (?n - 32)" by (simp add: toUpperChar_def)
    have m: "(?n - 32) mod 256 = ?n - 32" using True by (intro mod_less) linarith
    have "of_char (char_of (?n - 32) :: char) = ?n - 32"
      using m by (simp only: of_char_of)
    moreover have "65 \<le> ?n - 32" "?n - 32 \<le> 90" using True by linarith+
    ultimately have "toLowerChar (char_of (?n - 32)) = char_of (?n - 32 + 32)"
      by (simp add: toLowerChar_def Let_def)
    also have "?n - 32 + 32 = ?n" using True by simp
    finally have "toLowerChar (toUpperChar c) = c" using u by simp
    moreover have "toLowerChar c = c" using True by (simp add: toLowerChar_def)
    ultimately show ?thesis by simp
  next
    case False
    then have "toUpperChar c = c" by (auto simp: toUpperChar_def)
    then show ?thesis by simp
  qed
qed
lemma trim_eq_Nil: "trim s = [] \<longleftrightarrow> (\<forall>c\<in>set s. isSpace c)"
proof
  assume t: "trim s = []"
  let ?d = "dropWhile isSpace s"
  have all: "\<forall>x\<in>set ?d. isSpace x" using t by (simp add: trim_def)
  have "?d = []"
  proof (rule ccontr)
    assume ne: "?d \<noteq> []"
    then have "\<not> isSpace (hd ?d)" by (rule hd_dropWhile)
    moreover have "hd ?d \<in> set ?d" using ne by simp
    ultimately show False using all by blast
  qed
  then show "\<forall>c\<in>set s. isSpace c" by simp
next
  assume a: "\<forall>c\<in>set s. isSpace c"
  then have "dropWhile isSpace s = []" by simp
  then show "trim s = []" by (simp only: trim_def rev.simps dropWhile.simps)
qed
lemma toLowerCase_toUpperCase: "toLowerCase (toUpperCase s) = toLowerCase s"
  by (simp add: toLowerCase_def toUpperCase_def toLower_toUpper_char)

lemma for_of_return_None:
  "for_of_return f xs = None \<longleftrightarrow> (\<forall>x\<in>set xs. f x = None)"
  by (induction xs) (auto split: option.splits)

lemma for_of_return_Some:
  "for_of_return f xs = Some u \<longleftrightarrow>
     (\<exists>i<length xs. f (xs ! i) = Some u \<and> (\<forall>j<i. f (xs ! j) = None))"
proof (induction xs)
  case Nil
  show ?case by simp
next
  case (Cons e es)
  show ?case
  proof (cases "f e")
    case None
    have "(\<exists>i<length (e # es). f ((e # es) ! i) = Some u \<and> (\<forall>j<i. f ((e # es) ! j) = None))
          \<longleftrightarrow> (\<exists>i<length es. f (es ! i) = Some u \<and> (\<forall>j<i. f (es ! j) = None))"
      (is "?L \<longleftrightarrow> ?R")
    proof
      assume ?L
      then obtain i where i: "i < length (e # es)" "f ((e # es) ! i) = Some u"
        "\<forall>j<i. f ((e # es) ! j) = None" by blast
      then obtain k where k: "i = Suc k" using None by (cases i) auto
      have "\<forall>j<k. f (es ! j) = None"
      proof (intro allI impI)
        fix j assume "j < k"
        then have "Suc j < i" using k by simp
        then have "f ((e # es) ! Suc j) = None" using i(3) by blast
        then show "f (es ! j) = None" by simp
      qed
      then show ?R using i k by auto
    next
      assume ?R
      then obtain i where i: "i < length es" "f (es ! i) = Some u"
        "\<forall>j<i. f (es ! j) = None" by blast
      have "\<forall>j<Suc i. f ((e # es) ! j) = None"
        using i(3) None by (auto simp: nth_Cons')
      then show ?L using i by (intro exI [of _ "Suc i"]) auto
    qed
    then show ?thesis using None Cons by simp
  next
    case (Some v)
    have "(\<exists>i<length (e # es). f ((e # es) ! i) = Some u \<and> (\<forall>j<i. f ((e # es) ! j) = None))
          \<longleftrightarrow> v = u" (is "?L \<longleftrightarrow> _")
    proof
      assume ?L
      then obtain i where i: "i < length (e # es)" "f ((e # es) ! i) = Some u"
        "\<forall>j<i. f ((e # es) ! j) = None" by blast
      have "i = 0"
      proof (rule ccontr)
        assume "i \<noteq> 0"
        then have "f ((e # es) ! 0) = None" using i(3) by blast
        then show False using Some by simp
      qed
      then show "v = u" using i(2) Some by simp
    next
      assume "v = u"
      then show ?L using Some by (intro exI [of _ 0]) simp
    qed
    then show ?thesis using Some by simp
  qed
qed



section \<open>The "coin this cast" classifier\<close>

lemma includes_coin_this_not_blank:
  assumes "str_includes s ''coin this''"
  shows "trim s \<noteq> []"
proof -
  obtain a b where "s = a @ ''coin this'' @ b" using assms by (auto simp: str_includes_iff)
  then have "CHR ''c'' \<in> set s" by simp
  moreover have "\<not> isSpace CHR ''c''" by (simp add: isSpace_def)
  ultimately show ?thesis by (auto simp: trim_eq_Nil)
qed

lemma isRequestToCoinCast_iff:
  "isRequestToCoinCast t \<longleftrightarrow>
     (\<exists>p\<in>set coin_cast_patterns. \<exists>a b. toLowerCase t = a @ p @ b)
     \<or> ((\<exists>a b. toLowerCase t = a @ ''coin this'' @ b)
        \<and> length (ws_tokens (toLowerCase t)) \<le> 4)"
proof -
  let ?l = "toLowerCase t"
  have tok: "str_includes ?l ''coin this'' \<Longrightarrow> split_ws (trim ?l) = ws_tokens ?l"
    using includes_coin_this_not_blank split_ws_trim by blast
  have "isRequestToCoinCast t \<longleftrightarrow>
          (\<exists>p\<in>set coin_cast_patterns. str_includes ?l p)
          \<or> (str_includes ?l ''coin this'' \<and> length (split_ws (trim ?l)) \<le> 4)"
    by (auto simp: isRequestToCoinCast_def Let_def list_ex_iff)
  also have "\<dots> \<longleftrightarrow>
          (\<exists>p\<in>set coin_cast_patterns. str_includes ?l p)
          \<or> (str_includes ?l ''coin this'' \<and> length (ws_tokens ?l) \<le> 4)"
    using tok by auto
  finally show ?thesis by (simp only: str_includes_iff)
qed

lemma isRequestToCoinCast_case_insensitive:
  "isRequestToCoinCast (toUpperCase t) = isRequestToCoinCast t"
  by (simp add: isRequestToCoinCast_def toLowerCase_toUpperCase)

text \<open>
  Claim C4, amended. On ASCII text the classifier depends on the lower-cased text only. It is
  true exactly when the text contains one of the eight fixed phrases, or contains the short
  form "coin this" and has at most four whitespace-delimited tokens. The phrases are built on
  "coin", not on "mint": it is true on "coin this post" and on the two-token message
  "coin this", false on "I will coin this later" and on "I will mint this later".
\<close>

theorem classifier_coin_phrases:
  "(ascii_text t \<longrightarrow>
     (isRequestToCoinCast t \<longleftrightarrow>
        (\<exists>p\<in>set coin_cast_patterns. \<exists>a b. toLowerCase t = a @ p @ b)
        \<or> ((\<exists>a b. toLowerCase t = a @ ''coin this'' @ b)
           \<and> length (ws_tokens (toLowerCase t)) \<le> 4))
     \<and> isRequestToCoinCast (toUpperCase t) = isRequestToCoinCast t)
   \<and> isRequestToCoinCast ''coin this post''
   \<and> \<not> isRequestToCoinCast ''I will coin this later''
   \<and> isRequestToCoinCast ''coin this''
   \<and> \<not> isRequestToCoinCast ''I will mint this later''"
proof -
  have "isRequestToCoinCast ''coin this post''" by code_simp
  moreover have "\<not> isRequestToCoinCast ''I will coin this later''" by code_simp
  moreover have "isRequestToCoinCast ''coin this''" by code_simp
  moreover have "\<not> isRequestToCoinCast ''I will mint this later''" by code_simp
  ultimately show ?thesis
    using isRequestToCoinCast_iff [of t] isRequestToCoinCast_case_insensitive [of t] by blast
qed

text \<open>The short form inside a four-token ASCII message, in either letter case.\<close>

theorem classifier_coin_phrases_witness:
  "ascii_text ''@zoiner Coin This please''
   \<and> isRequestToCoinCast ''@zoiner Coin This please''
   \<and> isRequestToCoinCast ''@ZOINER COIN THIS PLEASE''"
proof -
  let ?t = "''@zoiner Coin This please''"
  have a: "ascii_text ?t" by code_simp
  have "toLowerCase ?t = ''@zoiner '' @ ''coin this'' @ '' please''" by code_simp
  then have "\<exists>a b. toLowerCase ?t = a @ ''coin this'' @ b" by blast
  moreover have "length (ws_tokens (toLowerCase ?t)) \<le> 4" by code_simp
  moreover have "toUpperCase ?t = ''@ZOINER COIN THIS PLEASE''" by code_simp
  ultimately show ?thesis using classifier_coin_phrases [of ?t] a by simp
qed

text \<open>
  Claim C4 as stated fails: neither "mint this post" nor the two-token message "mint this"
  is classified as a request.
\<close>

theorem classifier_mint_phrases_counterexample:
  "\<not> isRequestToCoinCast ''mint this post'' \<and> \<not> isRequestToCoinCast ''mint this''"
  by code_simp

section \<open>Symbols generated from names\<close>

lemma concat_take1_tokens:
  "concat (map (take 1) (ws_tokens s)) = map hd (ws_tokens s)"
proof -
  have "\<forall>w\<in>set ws. w \<noteq> [] \<Longrightarrow> concat (map (take 1) ws) = map hd ws" for ws :: "string list"
  proof (induction ws)
    case Nil
    show ?case by simp
  next
    case (Cons w ws)
    then obtain c cs where "w = c # cs" by (cases w) auto
    then show ?case using Cons by simp
  qed
  then show ?thesis using ws_tokens_nonempty by blast
qed

lemma generateSymbolFromName_trimmed:
  assumes "name \<noteq> []" "\<not> isSpace (hd name)" "\<not> isSpace (last name)"
  shows "generateSymbolFromName name = spec_generateSymbolFromName name"
proof -
  have sp: "split_ws name = ws_tokens name" using assms by (simp add: split_ws_tokens)
  show ?thesis
  proof (cases "length (ws_tokens name) > 1")
    case True
    then show ?thesis
      by (simp add: generateSymbolFromName_def spec_generateSymbolFromName_def sp
          concat_take1_tokens [unfolded One_nat_def])
  next
    case False
    then have "ws_tokens name = [name]" using assms single_token_is_text by simp
    then show ?thesis
      by (simp add: generateSymbolFromName_def spec_generateSymbolFromName_def sp)
  qed
qed

lemma extractExplicitName_trimmed:
  assumes "extractExplicitName t = Some name" "name \<noteq> []"
  shows "\<not> isSpace (hd name) \<and> \<not> isSpace (last name)"
proof -
  obtain i where "(case match_group1 t (name_patterns ! i) of
                     None \<Rightarrow> None
                   | Some g \<Rightarrow> if g \<noteq> [] then Some (trim g) else None) = Some name"
    using assms(1) unfolding extractExplicitName_def for_of_return_Some by blast
  then obtain g where "name = trim g"
    by (auto split: option.splits if_splits)
  then show ?thesis using assms(2) trim_hd [of g] trim_last [of g] by simp
qed

text \<open>
  Claim C9. \<^verbatim>\<open>generateSymbolFromName\<close> is private and is called at two places, both times with
  a non-empty result of \<^verbatim>\<open>extractExplicitName\<close>; such a name, here for an ASCII request, has
  no whitespace at either end. For every non-empty ASCII name of that kind the symbol is:
  with more than one word, the words' first characters, upper-cased, cut to 10 characters;
  with a single word, the name upper-cased and cut to 4 characters. "Nature" gives "NATU" and
  "Ocean Breeze" gives "OB".
\<close>

theorem symbol_from_extracted_name:
  "(ascii_text t \<and> extractExplicitName t = Some name \<and> name \<noteq> [] \<longrightarrow>
      \<not> isSpace (hd name) \<and> \<not> isSpace (last name))
   \<and> (ascii_text name \<and> name \<noteq> [] \<and> \<not> isSpace (hd name) \<and> \<not> isSpace (last name) \<longrightarrow>
      generateSymbolFromName name =
        (if length (ws_tokens name) > 1
         then take 10 (toUpperCase (map hd (ws_tokens name)))
         else take 4 (toUpperCase name))
      \<and> generateSymbolFromName name = spec_generateSymbolFromName name)
   \<and> generateSymbolFromName ''Nature'' = ''NATU''
   \<and> generateSymbolFromName ''Ocean Breeze'' = ''OB''"
proof -
  have a: "generateSymbolFromName ''Nature'' = ''NATU''" by code_simp
  have b: "generateSymbolFromName ''Ocean Breeze'' = ''OB''" by code_simp
  have c: "generateSymbolFromName name =
        (if length (ws_tokens name) > 1
         then take 10 (toUpperCase (map hd (ws_tokens name)))
         else take 4 (toUpperCase name))"
    if h: "name \<noteq> []" "\<not> isSpace (hd name)" "\<not> isSpace (last name)"
  proof -
    have sp: "split_ws name = ws_tokens name" using h by (simp add: split_ws_tokens)
    show ?thesis
      by (simp add: generateSymbolFromName_def sp concat_take1_tokens [unfolded One_nat_def])
  qed
  show ?thesis
    using a b c generateSymbolFromName_trimmed extractExplicitName_trimmed [of t name]
    by blast
qed

text \<open>A three-word name, as the extractor returns it from a request.\<close>

theorem symbol_from_extracted_name_witness:
  "ascii_text ''@zoiner create coin: Sunset Dream Token''
   \<and> extractExplicitName ''@zoiner create coin: Sunset Dream Token'' = Some ''Sunset Dream Token''
   \<and> ascii_text ''Sunset Dream Token''
   \<and> generateSymbolFromName ''Sunset Dream Token'' = ''SDT''
   \<and> spec_generateSymbolFromName ''Sunset Dream Token'' = ''SDT''"
proof -
  let ?n = "''Sunset Dream Token''"
  have e: "extractExplicitName ''@zoiner create coin: Sunset Dream Token'' = Some ?n"
    by code_simp
  have r: "ascii_text ''@zoiner create coin: Sunset Dream Token''" by code_simp
  have h: "ascii_text ?n \<and> ?n \<noteq> []" by code_simp
  have v: "generateSymbolFromName ?n = ''SDT''" by code_simp
  have "generateSymbolFromName ?n = spec_generateSymbolFromName ?n"
    using symbol_from_extracted_name
      [of "''@zoiner create coin: Sunset Dream Token''" ?n] r e h by blast
  then show ?thesis using r e h v by simp
qed

section \<open>Image extraction\<close>

lemma check_embed_Some:
  "check_embed e = Some u \<longleftrightarrow>
     (truthy (embed_url e) \<and> embed_url e = Some u
        \<and> (declared_image (embed_mimetype e) \<or> isLikelyImageUrl u))
     \<or> (\<not> (truthy (embed_url e)
            \<and> (declared_image (embed_mimetype e) \<or> isLikelyImageUrl (the (embed_url e))))
        \<and> truthy (embed_image e) \<and> embed_image e = Some u)"
  by (cases "embed_url e") (auto simp: check_embed_def split: option.splits)

lemma check_media_Some:
  "check_media m = Some u \<longleftrightarrow>
     truthy (media_url m) \<and> media_url m = Some u
       \<and> (declared_image (media_type m) \<or> isLikelyImageUrl u)"
  by (cases "media_url m") (auto simp: check_media_def split: option.splits)

lemma isLikelyImageUrl_iff:
  "isLikelyImageUrl u \<longleftrightarrow>
     (\<exists>ext\<in>set imageExtensions. endsWith (toLowerCase u) ext)
     \<or> str_includes (toLowerCase u) ''image''"
  by (auto simp: isLikelyImageUrl_def Let_def list_ex_iff imageExtensions_def)

lemma for_of_return_cases:
  obtains (hit) v where "for_of_return f xs = Some v" "\<not> (\<forall>x\<in>set xs. f x = None)"
        | (miss) "for_of_return f xs = None" "\<forall>x\<in>set xs. f x = None"
          "\<And>u. \<not> (\<exists>i<length xs. f (xs ! i) = Some u \<and> (\<forall>j<i. f (xs ! j) = None))"
proof (cases "for_of_return f xs")
  case None
  moreover have "\<forall>x\<in>set xs. f x = None" using None by (simp only: for_of_return_None)
  moreover have "\<not> (\<exists>i<length xs. f (xs ! i) = Some u \<and> (\<forall>j<i. f (xs ! j) = None))" for u
    using None for_of_return_Some [of f xs u] by simp
  ultimately show ?thesis using miss by blast
next
  case (Some v)
  moreover have "\<not> (\<forall>x\<in>set xs. f x = None)"
    using Some for_of_return_None [of f xs] by simp
  ultimately show ?thesis using hit by blast
qed

lemma extractImageFromCast_None:
  "extractImageFromCast c = None \<longleftrightarrow>
     (\<forall>e\<in>set (or_empty (embeds c)). check_embed e = None)
     \<and> (\<forall>m\<in>set (or_empty (embedded_media c)). check_media m = None)
     \<and> or_empty (image_urls c) = [] \<and> or_empty (images c) = []"
proof -
  let ?es = "or_empty (embeds c)" and ?ms = "or_empty (embedded_media c)"
  show ?thesis
  proof (cases rule: for_of_return_cases [of check_embed ?es])
    case (hit v)
    have "extractImageFromCast c = Some v" using hit(1) by (simp add: extractImageFromCast_def)
    then show ?thesis using hit(2) by simp
  next
    case miss
    note me = miss
    show ?thesis
    proof (cases rule: for_of_return_cases [of check_media ?ms])
      case (hit v)
      have "extractImageFromCast c = Some v"
        using me(1) hit(1) by (simp add: extractImageFromCast_def)
      then show ?thesis using hit(2) by simp
    next
      case miss
      have "extractImageFromCast c = None \<longleftrightarrow>
              or_empty (image_urls c) = [] \<and> or_empty (images c) = []"
        using me(1) miss(1) by (auto simp: extractImageFromCast_def split: list.splits)
      then show ?thesis using me(2) miss(2) by blast
    qed
  qed
qed

lemma extractImageFromCast_Some:
  "extractImageFromCast c = Some u \<longleftrightarrow>
     (let es = or_empty (embeds c); ms = or_empty (embedded_media c) in
      (\<exists>i<length es. check_embed (es ! i) = Some u \<and> (\<forall>j<i. check_embed (es ! j) = None))
      \<or> ((\<forall>e\<in>set es. check_embed e = None)
         \<and> (\<exists>i<length ms. check_media (ms ! i) = Some u
               \<and> (\<forall>j<i. check_media (ms ! j) = None)))
      \<or> ((\<forall>e\<in>set es. check_embed e = None) \<and> (\<forall>m\<in>set ms. check_media m = None)
         \<and> (\<exists>rest. or_empty (image_urls c) = u # rest))
      \<or> ((\<forall>e\<in>set es. check_embed e = None) \<and> (\<forall>m\<in>set ms. check_media m = None)
         \<and> or_empty (image_urls c) = [] \<and> (\<exists>rest. or_empty (images c) = u # rest)))"
proof -
  let ?es = "or_empty (embeds c)" and ?ms = "or_empty (embedded_media c)"
  let ?E = "\<exists>i<length ?es. check_embed (?es ! i) = Some u
              \<and> (\<forall>j<i. check_embed (?es ! j) = None)"
  let ?M = "\<exists>i<length ?ms. check_media (?ms ! i) = Some u
              \<and> (\<forall>j<i. check_media (?ms ! j) = None)"
  let ?NE = "\<forall>e\<in>set ?es. check_embed e = None"
  let ?NM = "\<forall>m\<in>set ?ms. check_media m = None"
  let ?U = "\<exists>rest. or_empty (image_urls c) = u # rest"
  let ?I = "or_empty (image_urls c) = [] \<and> (\<exists>rest. or_empty (images c) = u # rest)"
  have "extractImageFromCast c = Some u \<longleftrightarrow>
          ?E \<or> (?NE \<and> ?M) \<or> (?NE \<and> ?NM \<and> ?U) \<or> (?NE \<and> ?NM \<and> ?I)"
  proof (cases rule: for_of_return_cases [of check_embed ?es])
    case (hit v)
    have "extractImageFromCast c = Some v" using hit(1) by (simp add: extractImageFromCast_def)
    moreover have "v = u \<longleftrightarrow> ?E" using hit(1) for_of_return_Some [of check_embed ?es u] by simp
    ultimately show ?thesis using hit(2) by auto
  next
    case miss
    note me = miss
    show ?thesis
    proof (cases rule: for_of_return_cases [of check_media ?ms])
      case (hit v)
      have "extractImageFromCast c = Some v"
        using me(1) hit(1) by (simp add: extractImageFromCast_def)
      moreover have "v = u \<longleftrightarrow> ?M"
        using hit(1) for_of_return_Some [of check_media ?ms u] by simp
      ultimately show ?thesis using hit(2) me(2) me(3) [of u] by auto
    next
      case miss
      have "extractImageFromCast c = Some u \<longleftrightarrow> ?U \<or> ?I"
        using me(1) miss(1) by (auto simp: extractImageFromCast_def split: list.splits)
      then show ?thesis using me(2) me(3) [of u] miss(2) miss(3) [of u] by blast
    qed
  qed
  then show ?thesis by (simp only: Let_def)
qed


text \<open>
  Claim C5, amended. The embeds are visited in list order, and for each embed the checks run in
  the order (a) declared MIME type starting with "image/", (b) URL heuristic (a known
  extension at the end, or the substring "image"), both only for an embed with a non-empty
  URL, then (c) the embed's image field; the first embed passing a check wins, so an earlier
  embed passing (b) or (c) wins over a later embed passing (a). If no embed passes, the legacy
  media are visited in list order with checks (a) and (b); then the first element of
  \<^verbatim>\<open>image_urls\<close>, then the first element of \<^verbatim>\<open>images\<close>. The result is absent
  exactly when none of these matches; there is no error result.
\<close>

theorem extract_image_embed_major:
  "(extractImageFromCast c = Some u \<longleftrightarrow>
     (let es = or_empty (embeds c); ms = or_empty (embedded_media c) in
      (\<exists>i<length es. check_embed (es ! i) = Some u \<and> (\<forall>j<i. check_embed (es ! j) = None))
      \<or> ((\<forall>e\<in>set es. check_embed e = None)
         \<and> (\<exists>i<length ms. check_media (ms ! i) = Some u
               \<and> (\<forall>j<i. check_media (ms ! j) = None)))
      \<or> ((\<forall>e\<in>set es. check_embed e = None) \<and> (\<forall>m\<in>set ms. check_media m = None)
         \<and> (\<exists>rest. or_empty (image_urls c) = u # rest))
      \<or> ((\<forall>e\<in>set es. check_embed e = None) \<and> (\<forall>m\<in>set ms. check_media m = None)
         \<and> or_empty (image_urls c) = [] \<and> (\<exists>rest. or_empty (images c) = u # rest))))
   \<and> (extractImageFromCast c = None \<longleftrightarrow>
     (\<forall>e\<in>set (or_empty (embeds c)). check_embed e = None)
     \<and> (\<forall>m\<in>set (or_empty (embedded_media c)). check_media m = None)
     \<and> or_empty (image_urls c) = [] \<and> or_empty (images c) = [])
   \<and> (check_embed e = Some v \<longleftrightarrow>
     (truthy (embed_url e) \<and> embed_url e = Some v
        \<and> (declared_image (embed_mimetype e) \<or> isLikelyImageUrl v))
     \<or> (\<not> (truthy (embed_url e)
            \<and> (declared_image (embed_mimetype e) \<or> isLikelyImageUrl (the (embed_url e))))
        \<and> truthy (embed_image e) \<and> embed_image e = Some v))
   \<and> (check_media m = Some v \<longleftrightarrow>
     truthy (media_url m) \<and> media_url m = Some v
       \<and> (declared_image (media_type m) \<or> isLikelyImageUrl v))
   \<and> (isLikelyImageUrl w \<longleftrightarrow>
     (\<exists>ext\<in>set imageExtensions. endsWith (toLowerCase w) ext)
     \<or> str_includes (toLowerCase w) ''image'')"
  using extractImageFromCast_Some [of c u] extractImageFromCast_None [of c]
    check_embed_Some [of e v] check_media_Some [of m v] isLikelyImageUrl_iff [of w]
  by blast

text \<open>On the cast with two embeds the first embed wins, through its URL's extension.\<close>

theorem extract_image_embed_major_witness:
  "extractImageFromCast two_embeds_cast = Some ''https://x/a.png''"
proof -
  let ?es = "or_empty (embeds two_embeds_cast)"
  have "0 < length ?es" unfolding two_embeds_cast_def by simp
  moreover have "check_embed (?es ! 0) = Some ''https://x/a.png''"
    unfolding two_embeds_cast_def by code_simp
  ultimately have "\<exists>i<length ?es. check_embed (?es ! i) = Some ''https://x/a.png''
      \<and> (\<forall>j<i. check_embed (?es ! j) = None)"
    by (intro exI [of _ 0]) simp
  then show ?thesis
    using extract_image_embed_major [of two_embeds_cast "''https://x/a.png''"]
    by (simp only: Let_def) blast
qed

text \<open>
  Claim C5 as stated fails: with one pass per criterion, criterion (a) would select the
  second embed, whose MIME type is declared; the code returns the first embed's URL. And a
  cast that matches none of (a) to (e) still yields the first element of \<^verbatim>\<open>images\<close>.
\<close>

theorem extract_image_criterion_order_counterexample:
  "spec_extractImage two_embeds_cast = Some ''https://x/b''
   \<and> extractImageFromCast two_embeds_cast = Some ''https://x/a.png''
   \<and> spec_extractImage images_only_cast = None
   \<and> extractImageFromCast images_only_cast = Some ''https://x/z''"
  unfolding two_embeds_cast_def images_only_cast_def by code_simp

section \<open>Coin creation: retry and validation\<close>

lemma retry_loop_done:
  "maxRetries < attempt \<Longrightarrow> retry_loop env ps attempt (Some e) = ([], Inl e)"
  by (subst retry_loop.simps) simp

lemma retry_loop_ok:
  "attempt \<le> maxRetries \<Longrightarrow> sdk_createCoin env ps attempt = Inr x \<Longrightarrow>
     retry_loop env ps attempt le = ([SdkCall ps attempt], Inr x)"
  by (subst retry_loop.simps) simp

lemma retry_loop_other:
  "attempt \<le> maxRetries \<Longrightarrow> sdk_createCoin env ps attempt = Inl e \<Longrightarrow>
     \<not> metadata_not_propagated e \<Longrightarrow>
     retry_loop env ps attempt le = ([SdkCall ps attempt], Inl e)"
  by (subst retry_loop.simps) simp

lemma retry_loop_again:
  "attempt \<le> maxRetries \<Longrightarrow> sdk_createCoin env ps attempt = Inl e \<Longrightarrow>
     metadata_not_propagated e \<Longrightarrow>
     retry_loop env ps attempt le =
       (SdkCall ps attempt # Sleep (5000 * 2 ^ (attempt - 1))
          # fst (retry_loop env ps (attempt + 1) (Some e)),
        snd (retry_loop env ps (attempt + 1) (Some e)))"
  by (subst retry_loop.simps) (simp add: Let_def split: prod.splits)


lemma maxRetries_bounds:
  "(1::nat) \<le> maxRetries" "(2::nat) \<le> maxRetries" "(3::nat) \<le> maxRetries" "maxRetries < 4"
  by (simp_all add: maxRetries_def)

lemma third_attempt_retry:
  assumes "sdk_createCoin env ps 3 = Inl e3" "metadata_not_propagated e3"
  shows "retry_loop env ps 3 le = ([SdkCall ps 3, Sleep 20000], Inl e3)"
proof -
  have n: "(3::nat) + 1 = 4" and w: "(5000::nat) * 2 ^ (3 - 1) = 20000" by simp_all
  have d: "retry_loop env ps 4 (Some e3) = ([], Inl e3)"
    by (rule retry_loop_done [OF maxRetries_bounds(4)])
  have "retry_loop env ps 3 le =
          (SdkCall ps 3 # Sleep (5000 * 2 ^ (3 - 1)) # fst (retry_loop env ps (3 + 1) (Some e3)),
           snd (retry_loop env ps (3 + 1) (Some e3)))"
    by (rule retry_loop_again [OF maxRetries_bounds(3) assms])
  then show ?thesis by (simp only: n w d fst_conv snd_conv)
qed

lemma second_attempt_retry:
  assumes "sdk_createCoin env ps 2 = Inl e2" "metadata_not_propagated e2"
  shows "retry_loop env ps 2 le =
           (SdkCall ps 2 # Sleep 10000 # fst (retry_loop env ps 3 (Some e2)),
            snd (retry_loop env ps 3 (Some e2)))"
proof -
  have n: "(2::nat) + 1 = 3" and w: "(5000::nat) * 2 ^ (2 - 1) = 10000" by simp_all
  have "retry_loop env ps 2 le =
          (SdkCall ps 2 # Sleep (5000 * 2 ^ (2 - 1)) # fst (retry_loop env ps (2 + 1) (Some e2)),
           snd (retry_loop env ps (2 + 1) (Some e2)))"
    by (rule retry_loop_again [OF maxRetries_bounds(2) assms])
  then show ?thesis by (simp only: n w)
qed

lemma first_attempt_retry:
  assumes "sdk_createCoin env ps 1 = Inl e1" "metadata_not_propagated e1"
  shows "retry_loop env ps 1 le =
           (SdkCall ps 1 # Sleep 5000 # fst (retry_loop env ps 2 (Some e1)),
            snd (retry_loop env ps 2 (Some e1)))"
proof -
  have n: "(1::nat) + 1 = 2" and w: "(5000::nat) * 2 ^ (1 - 1) = 5000" by simp_all
  have "retry_loop env ps 1 le =
          (SdkCall ps 1 # Sleep (5000 * 2 ^ (1 - 1)) # fst (retry_loop env ps (1 + 1) (Some e1)),
           snd (retry_loop env ps (1 + 1) (Some e1)))"
    by (rule retry_loop_again [OF maxRetries_bounds(1) assms])
  then show ?thesis by (simp only: n w)
qed

lemma retry_schedule:
  fixes env ps
  defines "r \<equiv> retry_loop env ps 1 None"
  defines "c \<equiv> SdkCall ps"
  defines "sdk \<equiv> sdk_createCoin env ps"
  shows
  "(sdk 1 = Inr x \<longrightarrow> r = ([c 1], Inr x))
   \<and> (sdk 1 = Inl e1 \<and> \<not> metadata_not_propagated e1 \<longrightarrow> r = ([c 1], Inl e1))
   \<and> (sdk 1 = Inl e1 \<and> metadata_not_propagated e1 \<and> sdk 2 = Inr x
        \<longrightarrow> r = ([c 1, Sleep 5000, c 2], Inr x))
   \<and> (sdk 1 = Inl e1 \<and> metadata_not_propagated e1
      \<and> sdk 2 = Inl e2 \<and> \<not> metadata_not_propagated e2
        \<longrightarrow> r = ([c 1, Sleep 5000, c 2], Inl e2))
   \<and> (sdk 1 = Inl e1 \<and> metadata_not_propagated e1
      \<and> sdk 2 = Inl e2 \<and> metadata_not_propagated e2 \<and> sdk 3 = Inr x
        \<longrightarrow> r = ([c 1, Sleep 5000, c 2, Sleep 10000, c 3], Inr x))
   \<and> (sdk 1 = Inl e1 \<and> metadata_not_propagated e1
      \<and> sdk 2 = Inl e2 \<and> metadata_not_propagated e2
      \<and> sdk 3 = Inl e3 \<and> \<not> metadata_not_propagated e3
        \<longrightarrow> r = ([c 1, Sleep 5000, c 2, Sleep 10000, c 3], Inl e3))
   \<and> (sdk 1 = Inl e1 \<and> metadata_not_propagated e1
      \<and> sdk 2 = Inl e2 \<and> metadata_not_propagated e2
      \<and> sdk 3 = Inl e3 \<and> metadata_not_propagated e3
        \<longrightarrow> r = ([c 1, Sleep 5000, c 2, Sleep 10000, c 3, Sleep 20000], Inl e3))"
proof -
  note b = maxRetries_bounds
  have g1: "r = ([c 1], Inr x)" if "sdk 1 = Inr x"
    using that unfolding r_def c_def sdk_def by (rule retry_loop_ok [OF b(1)])
  have g2: "r = ([c 1], Inl e1)" if "sdk 1 = Inl e1" "\<not> metadata_not_propagated e1"
    using that unfolding r_def c_def sdk_def by (rule retry_loop_other [OF b(1)])
  have step1: "r = (c 1 # Sleep 5000 # fst (retry_loop env ps 2 (Some e1)),
                    snd (retry_loop env ps 2 (Some e1)))"
    if "sdk 1 = Inl e1" "metadata_not_propagated e1"
    using that unfolding r_def c_def sdk_def by (rule first_attempt_retry)
  have step2: "retry_loop env ps 2 (Some e1) =
                 (c 2 # Sleep 10000 # fst (retry_loop env ps 3 (Some e2)),
                  snd (retry_loop env ps 3 (Some e2)))"
    if "sdk 2 = Inl e2" "metadata_not_propagated e2"
    using that unfolding c_def sdk_def by (rule second_attempt_retry)
  have g3: "r = ([c 1, Sleep 5000, c 2], Inr x)"
    if h: "sdk 1 = Inl e1" "metadata_not_propagated e1" "sdk 2 = Inr x"
  proof -
    have "retry_loop env ps 2 (Some e1) = ([c 2], Inr x)"
      using h(3) unfolding c_def sdk_def by (rule retry_loop_ok [OF b(2)])
    then show ?thesis using step1 [OF h(1,2)] by (simp only: fst_conv snd_conv)
  qed
  have g4: "r = ([c 1, Sleep 5000, c 2], Inl e2)"
    if h: "sdk 1 = Inl e1" "metadata_not_propagated e1"
      "sdk 2 = Inl e2" "\<not> metadata_not_propagated e2"
  proof -
    have "retry_loop env ps 2 (Some e1) = ([c 2], Inl e2)"
      using h(3,4) unfolding c_def sdk_def by (rule retry_loop_other [OF b(2)])
    then show ?thesis using step1 [OF h(1,2)] by (simp only: fst_conv snd_conv)
  qed
  have g5: "r = ([c 1, Sleep 5000, c 2, Sleep 10000, c 3], Inr x)"
    if h: "sdk 1 = Inl e1" "metadata_not_propagated e1"
      "sdk 2 = Inl e2" "metadata_not_propagated e2" "sdk 3 = Inr x"
  proof -
    have "retry_loop env ps 3 (Some e2) = ([c 3], Inr x)"
      using h(5) unfolding c_def sdk_def by (rule retry_loop_ok [OF b(3)])
    then have "retry_loop env ps 2 (Some e1) = ([c 2, Sleep 10000, c 3], Inr x)"
      using step2 [OF h(3,4)] by (simp only: fst_conv snd_conv)
    then show ?thesis using step1 [OF h(1,2)] by (simp only: fst_conv snd_conv)
  qed
  have g6: "r = ([c 1, Sleep 5000, c 2, Sleep 10000, c 3], Inl e3)"
    if h: "sdk 1 = Inl e1" "metadata_not_propagated e1"
      "sdk 2 = Inl e2" "metadata_not_propagated e2"
      "sdk 3 = Inl e3" "\<not> metadata_not_propagated e3"
  proof -
    have "retry_loop env ps 3 (Some e2) = ([c 3], Inl e3)"
      using h(5,6) unfolding c_def sdk_def by (rule retry_loop_other [OF b(3)])
    then have "retry_loop env ps 2 (Some e1) = ([c 2, Sleep 10000, c 3], Inl e3)"
      using step2 [OF h(3,4)] by (simp only: fst_conv snd_conv)
    then show ?thesis using step1 [OF h(1,2)] by (simp only: fst_conv snd_conv)
  qed
  have g7: "r = ([c 1, Sleep 5000, c 2, Sleep 10000, c 3, Sleep 20000], Inl e3)"
    if h: "sdk 1 = Inl e1" "metadata_not_propagated e1"
      "sdk 2 = Inl e2" "metadata_not_propagated e2"
      "sdk 3 = Inl e3" "metadata_not_propagated e3"
  proof -
    have "retry_loop env ps 3 (Some e2) = ([c 3, Sleep 20000], Inl e3)"
      using h(5,6) unfolding c_def sdk_def by (rule third_attempt_retry)
    then have "retry_loop env ps 2 (Some e1) = ([c 2, Sleep 10000, c 3, Sleep 20000], Inl e3)"
      using step2 [OF h(3,4)] by (simp only: fst_conv snd_conv)
    then show ?thesis using step1 [OF h(1,2)] by (simp only: fst_conv snd_conv)
  qed
  show ?thesis using g1 g2 g3 g4 g5 g6 g7 by blast
qed










lemma createCoin_valid:
  assumes "\<not> dry_run env" "snd (validateMetadataURI env (cp_uri ps)) = Inr v"
  shows "createCoin env ps =
           (fst (validateMetadataURI env (cp_uri ps)) @ fst (retry_loop env ps 1 None),
            snd (retry_loop env ps 1 None))"
  using assms by (cases "validateMetadataURI env (cp_uri ps)")
    (auto simp: createCoin_def split: prod.splits)



lemma createCoin_dry_run:
  "dry_run env \<Longrightarrow> createCoin env ps = ([], Inr simulated_result)"
  by (simp add: createCoin_def)



text \<open>
  Claim C1. The issuance call is attempted at most three times. After a failure whose message
  contains "Metadata fetch failed" the loop sleeps 5000 ms after the first attempt, 10000 ms
  after the second and 20000 ms after the third (after which the last error is thrown); a
  failure with any other message, or one that is not an \<^verbatim>\<open>Error\<close>, is thrown at once:
  the trace ends with that call, without a sleep. Outside dry-run mode and after a passed
  validation, \<^verbatim>\<open>createCoin\<close> is exactly this loop.
\<close>

theorem retry_three_attempts_backoff:
  "(sdk_createCoin env ps 1 = Inr x \<longrightarrow>
      retry_loop env ps 1 None = ([SdkCall ps 1], Inr x))
   \<and> (sdk_createCoin env ps 1 = Inl e1 \<and> \<not> metadata_not_propagated e1 \<longrightarrow>
      retry_loop env ps 1 None = ([SdkCall ps 1], Inl e1))
   \<and> (sdk_createCoin env ps 1 = Inl e1 \<and> metadata_not_propagated e1
      \<and> sdk_createCoin env ps 2 = Inr x \<longrightarrow>
      retry_loop env ps 1 None = ([SdkCall ps 1, Sleep 5000, SdkCall ps 2], Inr x))
   \<and> (sdk_createCoin env ps 1 = Inl e1 \<and> metadata_not_propagated e1
      \<and> sdk_createCoin env ps 2 = Inl e2 \<and> \<not> metadata_not_propagated e2 \<longrightarrow>
      retry_loop env ps 1 None = ([SdkCall ps 1, Sleep 5000, SdkCall ps 2], Inl e2))
   \<and> (sdk_createCoin env ps 1 = Inl e1 \<and> metadata_not_propagated e1
      \<and> sdk_createCoin env ps 2 = Inl e2 \<and> metadata_not_propagated e2
      \<and> sdk_createCoin env ps 3 = Inr x \<longrightarrow>
      retry_loop env ps 1 None =
        ([SdkCall ps 1, Sleep 5000, SdkCall ps 2, Sleep 10000, SdkCall ps 3], Inr x))
   \<and> (sdk_createCoin env ps 1 = Inl e1 \<and> metadata_not_propagated e1
      \<and> sdk_createCoin env ps 2 = Inl e2 \<and> metadata_not_propagated e2
      \<and> sdk_createCoin env ps 3 = Inl e3 \<and> \<not> metadata_not_propagated e3 \<longrightarrow>
      retry_loop env ps 1 None =
        ([SdkCall ps 1, Sleep 5000, SdkCall ps 2, Sleep 10000, SdkCall ps 3], Inl e3))
   \<and> (sdk_createCoin env ps 1 = Inl e1 \<and> metadata_not_propagated e1
      \<and> sdk_createCoin env ps 2 = Inl e2 \<and> metadata_not_propagated e2
      \<and> sdk_createCoin env ps 3 = Inl e3 \<and> metadata_not_propagated e3 \<longrightarrow>
      retry_loop env ps 1 None =
        ([SdkCall ps 1, Sleep 5000, SdkCall ps 2, Sleep 10000, SdkCall ps 3, Sleep 20000],
         Inl e3))
   \<and> (\<not> dry_run env \<and> snd (validateMetadataURI env (cp_uri ps)) = Inr True \<longrightarrow>
      createCoin env ps =
        (fst (validateMetadataURI env (cp_uri ps)) @ fst (retry_loop env ps 1 None),
         snd (retry_loop env ps 1 None)))
   \<and> (metadata_not_propagated e \<longleftrightarrow>
        (\<exists>a b. error_message e = a @ ''Metadata fetch failed'' @ b))"
proof -
  have "metadata_not_propagated e \<longleftrightarrow> (\<exists>a b. error_message e = a @ ''Metadata fetch failed'' @ b)"
    by (auto simp: metadata_not_propagated_def Let_def str_includes_iff)
  moreover have "\<not> dry_run env \<and> snd (validateMetadataURI env (cp_uri ps)) = Inr True \<longrightarrow>
      createCoin env ps =
        (fst (validateMetadataURI env (cp_uri ps)) @ fst (retry_loop env ps 1 None),
         snd (retry_loop env ps 1 None))"
    using createCoin_valid [of env ps True] by blast
  moreover note retry_schedule [of env ps x e1 e2 e3]
  ultimately show ?thesis
    by (elim conjE, intro conjI) assumption+
qed

text \<open>Two failures for metadata not yet propagated, then success on the third attempt.\<close>

theorem retry_three_attempts_backoff_witness:
  "createCoin third_time_env (wave_params ipfs_uri) =
     ([HttpGet ''https://gateway.pinata.cloud/ipfs/bafkreiabcdefghijklmnop'',
       HttpGet ''https://ipfs.io/ipfs/bafkreiabcdefghijklmnop'',
       HttpGet ''https://tan-obvious-puffin-912.mypinata.cloud/ipfs/bafkreiabcdefghijklmnop'',
       SdkCall (wave_params ipfs_uri) 1, Sleep 5000,
       SdkCall (wave_params ipfs_uri) 2, Sleep 10000,
       SdkCall (wave_params ipfs_uri) 3],
      Inr minted)"
proof -
  let ?e = "JsError ''Metadata fetch failed: not found''"
  let ?ps = "wave_params ipfs_uri"
  have p: "metadata_not_propagated ?e" by code_simp
  have s1: "sdk_createCoin third_time_env ?ps 1 = Inl ?e"
    and s2: "sdk_createCoin third_time_env ?ps 2 = Inl ?e"
    and s3: "sdk_createCoin third_time_env ?ps 3 = Inr minted"
    by (simp_all add: third_time_env_def)
  have d: "\<not> dry_run third_time_env" by (simp add: third_time_env_def)
  have v: "validateMetadataURI third_time_env (cp_uri ?ps) =
     ([HttpGet ''https://gateway.pinata.cloud/ipfs/bafkreiabcdefghijklmnop'',
       HttpGet ''https://ipfs.io/ipfs/bafkreiabcdefghijklmnop'',
       HttpGet ''https://tan-obvious-puffin-912.mypinata.cloud/ipfs/bafkreiabcdefghijklmnop''],
      Inr True)"
    unfolding third_time_env_def wave_params_def ipfs_uri_def by code_simp
  have r: "retry_loop third_time_env ?ps 1 None =
        ([SdkCall ?ps 1, Sleep 5000, SdkCall ?ps 2, Sleep 10000, SdkCall ?ps 3], Inr minted)"
    using retry_three_attempts_backoff [of third_time_env ?ps minted ?e ?e] p s1 s2 s3
    by blast
  have "createCoin third_time_env ?ps =
        (fst (validateMetadataURI third_time_env (cp_uri ?ps))
           @ fst (retry_loop third_time_env ?ps 1 None),
         snd (retry_loop third_time_env ?ps 1 None))"
    using retry_three_attempts_backoff [of third_time_env ?ps] d v by simp
  then show ?thesis by (simp only: v r fst_conv snd_conv append.simps)
qed






section \<open>Extraction and sanitizing of names and symbols\<close>

lemma set_trim: "set (trim s) \<subseteq> set s"
proof -
  have "set (trim s) \<subseteq> set (rev (dropWhile isSpace s))"
    unfolding trim_def by (metis set_dropWhileD set_rev subsetI)
  also have "\<dots> \<subseteq> set s" by (auto dest: set_dropWhileD)
  finally show ?thesis .
qed

lemma sanitizeName_safe:
  "list_all safe_char (sanitizeName name) \<and> length (sanitizeName name) \<le> 30"
proof -
  have "set (sanitizeName name) \<subseteq> set (filter safe_char name)"
    unfolding sanitizeName_def Let_def using set_trim set_take_subset by (metis subset_trans)
  then show ?thesis by (auto simp: list_all_iff sanitizeName_def)
qed

lemma sanitizeSymbol_safe: "list_all safe_char (sanitizeSymbol symbol)"
proof -
  have "set (sanitizeSymbol symbol) \<subseteq> set (filter safe_char symbol)"
    unfolding sanitizeSymbol_def Let_def by (rule set_trim)
  then show ?thesis by (auto simp: list_all_iff)
qed

text \<open>
  Claim C8 fails on the extractors of the agent: they return the trimmed capture (the symbol
  upper-cased) as it is. On the request below the extracted name has 55 characters, among
  them "$" and "!", and the extracted symbol contains "$" and "!"; the sanitizers of
  parser-utils.ts, which the agent never calls, would have given 30 safe characters and "AB".
\<close>

theorem agent_extractors_skip_sanitizer:
  "extractExplicitName long_name_request
     = Some ''Caf$ Racer!! the very best coin of the whole wide world''
   \<and> length ''Caf$ Racer!! the very best coin of the whole wide world'' = 55
   \<and> \<not> list_all safe_char ''Caf$ Racer!! the very best coin of the whole wide world''
   \<and> sanitizeName ''Caf$ Racer!! the very best coin of the whole wide world''
       = ''Caf Racer the very best coin o''
   \<and> extractExplicitSymbol long_name_request = Some ''A$B!''
   \<and> sanitizeSymbol ''A$B!'' = ''AB''"
  unfolding long_name_request_def by code_simp



section \<open>The minting sequence\<close>

lemma reply_texts_append [simp]: "reply_texts (xs @ ys) = reply_texts xs @ reply_texts ys"
  by (induction xs rule: reply_texts.induct) auto

lemma ledger_rows_append [simp]: "ledger_rows (xs @ ys) = ledger_rows xs @ ledger_rows ys"
  by (induction xs rule: ledger_rows.induct) auto

lemma conversation_rows_append [simp]:
  "conversation_rows (xs @ ys) = conversation_rows xs @ conversation_rows ys"
  by (induction xs rule: conversation_rows.induct) auto

lemma claude_calls_append [simp]: "claude_calls (xs @ ys) = claude_calls xs @ claude_calls ys"
  by (induction xs rule: claude_calls.induct) auto

lemma zora_events_silent [simp]:
  "reply_texts (map Zora zevs) = []" "ledger_rows (map Zora zevs) = []"
  "conversation_rows (map Zora zevs) = []" "claude_calls (map Zora zevs) = []"
  by (induction zevs) auto

lemma executeTokenCreation_steps:
  fixes env :: agent_env and cast :: farcaster_cast and d :: agent_decision
    and ia :: "image_analysis option" and a u :: string
  assumes dry: "\<not> dry_run (zora env)"
    and addr: "getUserEthereumAddress env (fid (author cast)) = Some a" "a \<noteq> []"
    and img: "extractImageFromCast cast = Some u" "u \<noteq> []"
  defines "evs \<equiv> executeTokenCreation env d cast ia"
  defines "build \<equiv> buildMetadataUri env (suggested_name d) (suggested_symbol d) u"
  defines "issue \<equiv> \<lambda>uri. createCoin (zora env)
                     (issuance_params env (suggested_name d) (suggested_symbol d) uri a)"
  defines "row \<equiv> \<lambda>result. creation_row env cast result (suggested_name d) (suggested_symbol d) u
                     (case ia of None \<Rightarrow> None | Some x \<Rightarrow> ia_id x) (metadata_description d)"
  shows "build = Inl e \<Longrightarrow> evs = [Reply (fid (author cast)) (hash cast) creation_failed_reply]"
    and "build = Inr uri \<Longrightarrow> snd (issue uri) = Inl e \<Longrightarrow>
           evs = map Zora (fst (issue uri))
                 @ [Reply (fid (author cast)) (hash cast) creation_failed_reply]"
    and "build = Inr uri \<Longrightarrow> snd (issue uri) = Inr result \<Longrightarrow>
           insert_ledger env (row result) = Some e \<Longrightarrow>
           evs = map Zora (fst (issue uri))
                 @ [Reply (fid (author cast)) (hash cast)
                      (success_reply (message d)
                         (generateZoraUrl (result_address result) (platform_address env))),
                    Reply (fid (author cast)) (hash cast) creation_failed_reply]"
    and "build = Inr uri \<Longrightarrow> snd (issue uri) = Inr result \<Longrightarrow>
           insert_ledger env (row result) = None \<Longrightarrow>
           evs = map Zora (fst (issue uri))
                 @ [Reply (fid (author cast)) (hash cast)
                      (success_reply (message d)
                         (generateZoraUrl (result_address result) (platform_address env))),
                    LedgerInsert (row result)]"
  using dry addr img
  unfolding evs_def build_def issue_def row_def executeTokenCreation_def
  by (auto simp: Let_def split: prod.splits)

lemma executeTokenCreation_ledger:
  "ledger_rows (executeTokenCreation env d cast ia) = [] \<or>
   (\<exists>a u uri zevs result.
      \<not> dry_run (zora env)
      \<and> getUserEthereumAddress env (fid (author cast)) = Some a
      \<and> extractImageFromCast cast = Some u
      \<and> buildMetadataUri env (suggested_name d) (suggested_symbol d) u = Inr uri
      \<and> createCoin (zora env)
           (issuance_params env (suggested_name d) (suggested_symbol d) uri a)
         = (zevs, Inr result)
      \<and> ledger_rows (executeTokenCreation env d cast ia)
         = [creation_row env cast result (suggested_name d) (suggested_symbol d) u
              (case ia of None \<Rightarrow> None | Some x \<Rightarrow> ia_id x) (metadata_description d)])"
proof (cases "dry_run (zora env)")
  case True
  then show ?thesis by (simp add: executeTokenCreation_def Let_def)
next
  case dry: False
  show ?thesis
  proof (cases "truthy (getUserEthereumAddress env (fid (author cast)))
                \<and> truthy (extractImageFromCast cast)")
    case False
    then show ?thesis using dry by (auto simp: executeTokenCreation_def Let_def)
  next
    case True
    then obtain a u where au: "getUserEthereumAddress env (fid (author cast)) = Some a" "a \<noteq> []"
      "extractImageFromCast cast = Some u" "u \<noteq> []"
      by (cases "getUserEthereumAddress env (fid (author cast))";
          cases "extractImageFromCast cast") auto
    note st = executeTokenCreation_steps [OF dry au, where d = d and ia = ia]
    show ?thesis
    proof (cases "buildMetadataUri env (suggested_name d) (suggested_symbol d) u")
      case (Inl e)
      then show ?thesis using st(1) by simp
    next
      case (Inr uri)
      let ?issue = "createCoin (zora env)
           (issuance_params env (suggested_name d) (suggested_symbol d) uri a)"
      show ?thesis
      proof (cases "snd ?issue")
        case (Inl e)
        then show ?thesis using st(2) [OF Inr Inl] by simp
      next
        case res: (Inr result)
        let ?row = "creation_row env cast result (suggested_name d) (suggested_symbol d) u
              (case ia of None \<Rightarrow> None | Some x \<Rightarrow> ia_id x) (metadata_description d)"
        have pair: "?issue = (fst ?issue, Inr result)" using res by (metis prod.collapse)
        show ?thesis
        proof (cases "insert_ledger env ?row")
          case None
          have "ledger_rows (executeTokenCreation env d cast ia) = [?row]"
            using st(4) [OF Inr res None] by simp
          then show ?thesis using dry au Inr pair by blast
        next
          case (Some e)
          then show ?thesis using st(3) [OF Inr res Some] by simp
        qed
      qed
    qed
  qed
qed



lemma executeTokenCreation_trace:
  fixes env :: agent_env and cast :: farcaster_cast and d :: agent_decision
    and ia :: "image_analysis option" and a u :: string
  assumes dry: "\<not> dry_run (zora env)"
    and addr: "getUserEthereumAddress env (fid (author cast)) = Some a" "a \<noteq> []"
    and img: "extractImageFromCast cast = Some u" "u \<noteq> []"
  defines "evs \<equiv> executeTokenCreation env d cast ia"
  defines "build \<equiv> buildMetadataUri env (suggested_name d) (suggested_symbol d) u"
  defines "issue \<equiv> \<lambda>uri. createCoin (zora env)
                     (issuance_params env (suggested_name d) (suggested_symbol d) uri a)"
  defines "row \<equiv> \<lambda>result. creation_row env cast result (suggested_name d) (suggested_symbol d) u
                     (case ia of None \<Rightarrow> None | Some x \<Rightarrow> ia_id x) (metadata_description d)"
  defines "reply \<equiv> Reply (fid (author cast)) (hash cast)"
  shows "build = Inl e \<Longrightarrow> evs = [reply creation_failed_reply]"
    and "build = Inr uri \<Longrightarrow> issue uri = (zevs, Inl e) \<Longrightarrow>
           evs = map Zora zevs @ [reply creation_failed_reply]"
    and "build = Inr uri \<Longrightarrow> issue uri = (zevs, Inr result) \<Longrightarrow>
           insert_ledger env (row result) = Some e \<Longrightarrow>
           evs = map Zora zevs
                 @ [reply (success_reply (message d)
                            (generateZoraUrl (result_address result) (platform_address env))),
                    reply creation_failed_reply]"
    and "build = Inr uri \<Longrightarrow> issue uri = (zevs, Inr result) \<Longrightarrow>
           insert_ledger env (row result) = None \<Longrightarrow>
           evs = map Zora zevs
                 @ [reply (success_reply (message d)
                            (generateZoraUrl (result_address result) (platform_address env))),
                    LedgerInsert (row result)]"
  using dry addr img
  unfolding evs_def build_def issue_def row_def reply_def executeTokenCreation_def
  by (simp_all add: Let_def)

lemma executeCastTokenCreation_trace:
  fixes env :: agent_env and cast t :: farcaster_cast and d :: agent_decision
    and a i :: string
  assumes dry: "\<not> dry_run (zora env)"
    and addr: "getUserEthereumAddress env (fid (author cast)) = Some a" "a \<noteq> []"
    and img: "i \<noteq> []"
  defines "evs \<equiv> executeCastTokenCreation env d cast (Some i) t"
  defines "name \<equiv> or_default (suggested_name d) (''Cast by '' @ username (author t))"
  defines "symbol \<equiv> or_default (suggested_symbol d) ''CAST''"
  defines "description \<equiv> or_default (metadata_description d)
                            (tokenized_description (cast_text t))"
  defines "build \<equiv> buildMetadataUri env (Some name) (Some symbol) i"
  defines "issue \<equiv> \<lambda>uri. createCoin (zora env)
                     (issuance_params env (Some name) (Some symbol) uri a)"
  defines "row \<equiv> \<lambda>result. creation_row env cast result (Some name) (Some symbol) i None
                     (Some description)"
  defines "reply \<equiv> Reply (fid (author cast)) (hash cast)"
  shows "build = Inl e \<Longrightarrow> evs = [reply creation_failed_reply]"
    and "build = Inr uri \<Longrightarrow> issue uri = (zevs, Inl e) \<Longrightarrow>
           evs = map Zora zevs @ [reply creation_failed_reply]"
    and "build = Inr uri \<Longrightarrow> issue uri = (zevs, Inr result) \<Longrightarrow>
           insert_ledger env (row result) = Some e \<Longrightarrow>
           evs = map Zora zevs
                 @ [reply (cast_success_reply (message d) (username (author t))
                            (generateZoraUrl (result_address result) (platform_address env))),
                    reply creation_failed_reply]"
    and "build = Inr uri \<Longrightarrow> issue uri = (zevs, Inr result) \<Longrightarrow>
           insert_ledger env (row result) = None \<Longrightarrow>
           evs = map Zora zevs
                 @ [reply (cast_success_reply (message d) (username (author t))
                            (generateZoraUrl (result_address result) (platform_address env))),
                    LedgerInsert (row result)]"
  using dry addr img
  unfolding evs_def build_def issue_def row_def reply_def name_def symbol_def description_def
    executeCastTokenCreation_def
  by (simp_all add: Let_def)

lemma minting_guards:
  "dry_run (zora env) \<Longrightarrow>
     executeTokenCreation env d cast ia
       = [Reply (fid (author cast)) (hash cast)
            (message d @ nl @ nl @ ''DRY RUN: Token '' @ [dquote] @ render (suggested_name d)
               @ [dquote] @ '' would be created!'')]"
  "dry_run (zora env) \<Longrightarrow>
     executeCastTokenCreation env d cast imageUrl targetCast
       = [Reply (fid (author cast)) (hash cast)
            (message d @ nl @ nl @ ''DRY RUN: Token '' @ [dquote] @ render (suggested_name d)
               @ [dquote] @ '' would be created from cast by ''
               @ username (author targetCast) @ ''!'')]"
  "\<not> dry_run (zora env) \<Longrightarrow>
   \<not> truthy (getUserEthereumAddress env (fid (author cast)))
     \<or> \<not> truthy (extractImageFromCast cast) \<Longrightarrow>
     executeTokenCreation env d cast ia
       = [Reply (fid (author cast)) (hash cast)
            (if \<not> truthy (getUserEthereumAddress env (fid (author cast)))
             then need_address_reply else need_image_reply)]"
  "\<not> dry_run (zora env) \<Longrightarrow>
   \<not> truthy (getUserEthereumAddress env (fid (author cast))) \<or> \<not> truthy imageUrl \<Longrightarrow>
     executeCastTokenCreation env d cast imageUrl targetCast
       = [Reply (fid (author cast)) (hash cast)
            (if \<not> truthy (getUserEthereumAddress env (fid (author cast)))
             then need_address_reply else need_image_reply)]"
  by (auto simp: executeTokenCreation_def executeCastTokenCreation_def Let_def)

lemma executeCastTokenCreation_ledger:
  "ledger_rows (executeCastTokenCreation env d cast iu t) = [] \<or>
   (\<exists>a i uri zevs result.
      \<not> dry_run (zora env)
      \<and> getUserEthereumAddress env (fid (author cast)) = Some a
      \<and> iu = Some i
      \<and> buildMetadataUri env
           (Some (or_default (suggested_name d) (''Cast by '' @ username (author t))))
           (Some (or_default (suggested_symbol d) ''CAST'')) i = Inr uri
      \<and> createCoin (zora env)
           (issuance_params env
              (Some (or_default (suggested_name d) (''Cast by '' @ username (author t))))
              (Some (or_default (suggested_symbol d) ''CAST'')) uri a)
         = (zevs, Inr result)
      \<and> ledger_rows (executeCastTokenCreation env d cast iu t)
         = [creation_row env cast result
              (Some (or_default (suggested_name d) (''Cast by '' @ username (author t))))
              (Some (or_default (suggested_symbol d) ''CAST'')) i None
              (Some (or_default (metadata_description d)
                       (tokenized_description (cast_text t))))])"
proof (cases "dry_run (zora env)")
  case True
  then show ?thesis by (simp add: executeCastTokenCreation_def Let_def)
next
  case dry: False
  show ?thesis
  proof (cases "truthy (getUserEthereumAddress env (fid (author cast))) \<and> truthy iu")
    case False
    then show ?thesis using dry by (auto simp: executeCastTokenCreation_def Let_def)
  next
    case True
    then obtain a i where au: "getUserEthereumAddress env (fid (author cast)) = Some a"
      "a \<noteq> []" "iu = Some i" "i \<noteq> []"
      by (cases "getUserEthereumAddress env (fid (author cast))"; cases iu) auto
    let ?name = "or_default (suggested_name d) (''Cast by '' @ username (author t))"
    let ?symbol = "or_default (suggested_symbol d) ''CAST''"
    note st = executeCastTokenCreation_trace [OF dry au(1,2,4), where d = d and t = t]
    show ?thesis
    proof (cases "buildMetadataUri env (Some ?name) (Some ?symbol) i")
      case (Inl e)
      then show ?thesis using st(1) au(3) by simp
    next
      case (Inr uri)
      obtain zevs res where issue:
        "createCoin (zora env) (issuance_params env (Some ?name) (Some ?symbol) uri a)
         = (zevs, res)"
        by (cases "createCoin (zora env)
                     (issuance_params env (Some ?name) (Some ?symbol) uri a)")
      show ?thesis
      proof (cases res)
        case (Inl e)
        then show ?thesis using st(2) [OF Inr] issue au(3) by simp
      next
        case res: (Inr result)
        let ?row = "creation_row env cast result (Some ?name) (Some ?symbol) i None
              (Some (or_default (metadata_description d)
                       (tokenized_description (cast_text t))))"
        have pair: "createCoin (zora env)
                      (issuance_params env (Some ?name) (Some ?symbol) uri a)
                    = (zevs, Inr result)"
          using issue res by simp
        show ?thesis
        proof (cases "insert_ledger env ?row")
          case None
          have "ledger_rows (executeCastTokenCreation env d cast iu t) = [?row]"
            using st(4) [OF Inr pair None] au(3) by simp
          then show ?thesis using dry au Inr pair by blast
        next
          case (Some e)
          then show ?thesis using st(3) [OF Inr pair Some] au(3) by simp
        qed
      qed
    qed
  qed
qed

text \<open>
  Claim C2. Both minting sequences, \<^verbatim>\<open>executeTokenCreation\<close> of the regular path and
  \<^verbatim>\<open>executeCastTokenCreation\<close> of the "coin this cast" path, behave alike. Outside dry-run
  mode, with a verified address and an image: when the metadata upload throws, or the issuance
  throws (a non-propagation error at once, a propagation error after the third attempt, or a
  failed validation), the sequence makes the SDK calls of the issuance and then exactly one
  reply, the fixed failure text, and writes no ledger row. After a successful issuance it
  sends the success reply and then inserts one ledger row; if that insert throws, the failure
  text follows the success reply and no row is written. In dry-run mode, or without a
  verified address or an image, the only effect is one reply that says so. In every
  execution, whatever the mode and the inputs, a ledger row is written only after a
  successful issuance.
\<close>

theorem failed_creation_one_reply_no_ledger:
  "(dry_run (zora env) \<longrightarrow>
      executeTokenCreation env d cast ia
        = [Reply (fid (author cast)) (hash cast)
             (message d @ nl @ nl @ ''DRY RUN: Token '' @ [dquote] @ render (suggested_name d)
                @ [dquote] @ '' would be created!'')]
      \<and> executeCastTokenCreation env d cast imageUrl targetCast
        = [Reply (fid (author cast)) (hash cast)
             (message d @ nl @ nl @ ''DRY RUN: Token '' @ [dquote] @ render (suggested_name d)
                @ [dquote] @ '' would be created from cast by ''
                @ username (author targetCast) @ ''!'')])
   \<and> (\<not> dry_run (zora env)
       \<and> (\<not> truthy (getUserEthereumAddress env (fid (author cast)))
            \<or> \<not> truthy (extractImageFromCast cast)) \<longrightarrow>
      executeTokenCreation env d cast ia
        = [Reply (fid (author cast)) (hash cast)
             (if \<not> truthy (getUserEthereumAddress env (fid (author cast)))
              then need_address_reply else need_image_reply)])
   \<and> (\<not> dry_run (zora env)
       \<and> (\<not> truthy (getUserEthereumAddress env (fid (author cast)))
            \<or> \<not> truthy imageUrl) \<longrightarrow>
      executeCastTokenCreation env d cast imageUrl targetCast
        = [Reply (fid (author cast)) (hash cast)
             (if \<not> truthy (getUserEthereumAddress env (fid (author cast)))
              then need_address_reply else need_image_reply)])
   \<and> (\<not> dry_run (zora env)
      \<and> getUserEthereumAddress env (fid (author cast)) = Some a \<and> a \<noteq> []
      \<and> extractImageFromCast cast = Some u \<and> u \<noteq> [] \<longrightarrow>
      (buildMetadataUri env (suggested_name d) (suggested_symbol d) u = Inl e \<longrightarrow>
         executeTokenCreation env d cast ia
           = [Reply (fid (author cast)) (hash cast) creation_failed_reply])
      \<and> (buildMetadataUri env (suggested_name d) (suggested_symbol d) u = Inr uri
          \<and> createCoin (zora env)
               (issuance_params env (suggested_name d) (suggested_symbol d) uri a)
             = (zevs, Inl e) \<longrightarrow>
         executeTokenCreation env d cast ia
           = map Zora zevs @ [Reply (fid (author cast)) (hash cast) creation_failed_reply])
      \<and> (buildMetadataUri env (suggested_name d) (suggested_symbol d) u = Inr uri
          \<and> createCoin (zora env)
               (issuance_params env (suggested_name d) (suggested_symbol d) uri a)
             = (zevs, Inr result)
          \<and> insert_ledger env
               (creation_row env cast result (suggested_name d) (suggested_symbol d) u
                  (case ia of None \<Rightarrow> None | Some x \<Rightarrow> ia_id x) (metadata_description d))
             = Some e \<longrightarrow>
         executeTokenCreation env d cast ia
           = map Zora zevs
             @ [Reply (fid (author cast)) (hash cast)
                  (success_reply (message d)
                     (generateZoraUrl (result_address result) (platform_address env))),
                Reply (fid (author cast)) (hash cast) creation_failed_reply])
      \<and> (buildMetadataUri env (suggested_name d) (suggested_symbol d) u = Inr uri
          \<and> createCoin (zora env)
               (issuance_params env (suggested_name d) (suggested_symbol d) uri a)
             = (zevs, Inr result)
          \<and> insert_ledger env
               (creation_row env cast result (suggested_name d) (suggested_symbol d) u
                  (case ia of None \<Rightarrow> None | Some x \<Rightarrow> ia_id x) (metadata_description d))
             = None \<longrightarrow>
         executeTokenCreation env d cast ia
           = map Zora zevs
             @ [Reply (fid (author cast)) (hash cast)
                  (success_reply (message d)
                     (generateZoraUrl (result_address result) (platform_address env))),
                LedgerInsert
                  (creation_row env cast result (suggested_name d) (suggested_symbol d) u
                     (case ia of None \<Rightarrow> None | Some x \<Rightarrow> ia_id x)
                     (metadata_description d))]))
   \<and> (\<not> dry_run (zora env)
      \<and> getUserEthereumAddress env (fid (author cast)) = Some a \<and> a \<noteq> [] \<and> i \<noteq> [] \<longrightarrow>
      (buildMetadataUri env (Some (or_default (suggested_name d)
            (''Cast by '' @ username (author targetCast))))
         (Some (or_default (suggested_symbol d) ''CAST'')) i = Inl e \<longrightarrow>
         executeCastTokenCreation env d cast (Some i) targetCast
           = [Reply (fid (author cast)) (hash cast) creation_failed_reply])
      \<and> (buildMetadataUri env (Some (or_default (suggested_name d)
            (''Cast by '' @ username (author targetCast))))
            (Some (or_default (suggested_symbol d) ''CAST'')) i = Inr uri
          \<and> createCoin (zora env)
               (issuance_params env (Some (or_default (suggested_name d)
                     (''Cast by '' @ username (author targetCast))))
                  (Some (or_default (suggested_symbol d) ''CAST'')) uri a)
             = (zevs, Inl e) \<longrightarrow>
         executeCastTokenCreation env d cast (Some i) targetCast
           = map Zora zevs @ [Reply (fid (author cast)) (hash cast) creation_failed_reply])
      \<and> (buildMetadataUri env (Some (or_default (suggested_name d)
            (''Cast by '' @ username (author targetCast))))
            (Some (or_default (suggested_symbol d) ''CAST'')) i = Inr uri
          \<and> createCoin (zora env)
               (issuance_params env (Some (or_default (suggested_name d)
                     (''Cast by '' @ username (author targetCast))))
                  (Some (or_default (suggested_symbol d) ''CAST'')) uri a)
             = (zevs, Inr result)
          \<and> insert_ledger env
               (creation_row env cast result (Some (or_default (suggested_name d)
                     (''Cast by '' @ username (author targetCast))))
                  (Some (or_default (suggested_symbol d) ''CAST'')) i None
                  (Some (or_default (metadata_description d)
                        (tokenized_description (cast_text targetCast)))))
             = Some e \<longrightarrow>
         executeCastTokenCreation env d cast (Some i) targetCast
           = map Zora zevs
             @ [Reply (fid (author cast)) (hash cast)
                  (cast_success_reply (message d) (username (author targetCast))
                     (generateZoraUrl (result_address result) (platform_address env))),
                Reply (fid (author cast)) (hash cast) creation_failed_reply])
      \<and> (buildMetadataUri env (Some (or_default (suggested_name d)
            (''Cast by '' @ username (author targetCast))))
            (Some (or_default (suggested_symbol d) ''CAST'')) i = Inr uri
          \<and> createCoin (zora env)
               (issuance_params env (Some (or_default (suggested_name d)
                     (''Cast by '' @ username (author targetCast))))
                  (Some (or_default (suggested_symbol d) ''CAST'')) uri a)
             = (zevs, Inr result)
          \<and> insert_ledger env
               (creation_row env cast result (Some (or_default (suggested_name d)
                     (''Cast by '' @ username (author targetCast))))
                  (Some (or_default (suggested_symbol d) ''CAST'')) i None
                  (Some (or_default (metadata_description d)
                        (tokenized_description (cast_text targetCast)))))
             = None \<longrightarrow>
         executeCastTokenCreation env d cast (Some i) targetCast
           = map Zora zevs
             @ [Reply (fid (author cast)) (hash cast)
                  (cast_success_reply (message d) (username (author targetCast))
                     (generateZoraUrl (result_address result) (platform_address env))),
                LedgerInsert
                  (creation_row env cast result (Some (or_default (suggested_name d)
                        (''Cast by '' @ username (author targetCast))))
                     (Some (or_default (suggested_symbol d) ''CAST'')) i None
                     (Some (or_default (metadata_description d)
                           (tokenized_description (cast_text targetCast)))))]))
   \<and> (ledger_rows (executeTokenCreation env d cast ia) = [] \<or>
       (\<exists>a u uri zevs result.
          \<not> dry_run (zora env)
          \<and> getUserEthereumAddress env (fid (author cast)) = Some a
          \<and> extractImageFromCast cast = Some u
          \<and> buildMetadataUri env (suggested_name d) (suggested_symbol d) u = Inr uri
          \<and> createCoin (zora env)
               (issuance_params env (suggested_name d) (suggested_symbol d) uri a)
             = (zevs, Inr result)
          \<and> ledger_rows (executeTokenCreation env d cast ia)
             = [creation_row env cast result (suggested_name d) (suggested_symbol d) u
                  (case ia of None \<Rightarrow> None | Some x \<Rightarrow> ia_id x) (metadata_description d)]))
   \<and> (ledger_rows (executeCastTokenCreation env d cast imageUrl targetCast) = [] \<or>
       (\<exists>a i uri zevs result.
          \<not> dry_run (zora env)
          \<and> getUserEthereumAddress env (fid (author cast)) = Some a
          \<and> imageUrl = Some i
          \<and> buildMetadataUri env (Some (or_default (suggested_name d)
                (''Cast by '' @ username (author targetCast))))
               (Some (or_default (suggested_symbol d) ''CAST'')) i = Inr uri
          \<and> createCoin (zora env)
               (issuance_params env (Some (or_default (suggested_name d)
                     (''Cast by '' @ username (author targetCast))))
                  (Some (or_default (suggested_symbol d) ''CAST'')) uri a)
             = (zevs, Inr result)
          \<and> ledger_rows (executeCastTokenCreation env d cast imageUrl targetCast)
             = [creation_row env cast result (Some (or_default (suggested_name d)
                   (''Cast by '' @ username (author targetCast))))
                  (Some (or_default (suggested_symbol d) ''CAST'')) i None
                  (Some (or_default (metadata_description d)
                        (tokenized_description (cast_text targetCast))))]))"
proof (intro conjI impI, goal_cases)
  case 1
  then show ?case by (rule minting_guards(1))
next
  case 2
  then show ?case by (rule minting_guards(2))
next
  case 3
  then show ?case using minting_guards(3) [of env cast d ia] by blast
next
  case 4
  then show ?case using minting_guards(4) [of env cast imageUrl d targetCast] by blast
next
  case 5
  then show ?case
    using executeTokenCreation_trace(1)
      [where env = env and cast = cast and a = a and u = u and d = d and ia = ia and e = e]
    by simp
next
  case 6
  then show ?case
    using executeTokenCreation_trace(2)
      [where env = env and cast = cast and a = a and u = u and d = d and ia = ia and e = e
         and uri = uri and zevs = zevs]
    by simp
next
  case 7
  then show ?case
    using executeTokenCreation_trace(3)
      [where env = env and cast = cast and a = a and u = u and d = d and ia = ia and e = e
         and uri = uri and zevs = zevs and result = result]
    by simp
next
  case 8
  then show ?case
    using executeTokenCreation_trace(4)
      [where env = env and cast = cast and a = a and u = u and d = d and ia = ia
         and uri = uri and zevs = zevs and result = result]
    by simp
next
  case 9
  then show ?case
    using executeCastTokenCreation_trace(1)
      [where env = env and cast = cast and a = a and i = i and d = d and t = targetCast
         and e = e]
    by simp
next
  case 10
  then show ?case
    using executeCastTokenCreation_trace(2)
      [where env = env and cast = cast and a = a and i = i and d = d and t = targetCast
         and e = e and uri = uri and zevs = zevs]
    by simp
next
  case 11
  then show ?case
    using executeCastTokenCreation_trace(3)
      [where env = env and cast = cast and a = a and i = i and d = d and t = targetCast
         and e = e and uri = uri and zevs = zevs and result = result]
    by simp
next
  case 12
  then show ?case
    using executeCastTokenCreation_trace(4)
      [where env = env and cast = cast and a = a and i = i and d = d and t = targetCast
         and uri = uri and zevs = zevs and result = result]
    by simp
next
  case 13
  show ?case by (rule executeTokenCreation_ledger)
next
  case 14
  show ?case by (rule executeCastTokenCreation_ledger)
qed

text \<open>
  An issuance that reverts, in either sequence: one failure reply and no ledger row.
\<close>

theorem failed_creation_one_reply_no_ledger_witness:
  "reply_texts (executeTokenCreation reverting_env advisory_decision wave_cast
                  (Some wave_analysis)) = [creation_failed_reply]
   \<and> ledger_rows (executeTokenCreation reverting_env advisory_decision wave_cast
                    (Some wave_analysis)) = []
   \<and> reply_texts (executeCastTokenCreation reverting_env advisory_decision coin_this_cast
                    (Some (generateCastImageUrl coin_this_cast)) wave_cast)
       = [creation_failed_reply]
   \<and> ledger_rows (executeCastTokenCreation reverting_env advisory_decision coin_this_cast
                    (Some (generateCastImageUrl coin_this_cast)) wave_cast) = []"
proof -
  let ?e = "JsError ''execution reverted''"
  let ?p = "issuance_params reverting_env (suggested_name advisory_decision)
              (suggested_symbol advisory_decision) ipfs_uri ''0xabc''"
  let ?q = "issuance_params reverting_env
              (Some (or_default (suggested_name advisory_decision)
                       (''Cast by '' @ username (author wave_cast))))
              (Some (or_default (suggested_symbol advisory_decision) ''CAST''))
              ipfs_uri ''0xabc''"
  let ?i = "generateCastImageUrl coin_this_cast"
  have dry: "\<not> dry_run (zora reverting_env)"
    by (simp add: reverting_env_def working_env_def third_time_env_def)
  have addr: "getUserEthereumAddress reverting_env (fid (author wave_cast)) = Some ''0xabc''"
    "getUserEthereumAddress reverting_env (fid (author coin_this_cast)) = Some ''0xabc''"
    by (simp_all add: reverting_env_def working_env_def)
  have img: "extractImageFromCast wave_cast = Some ''https://x/y.png''"
    unfolding wave_cast_def by code_simp
  have i: "?i \<noteq> []" by (simp add: generateCastImageUrl_def)
  have build: "buildMetadataUri reverting_env n s v = Inr ipfs_uri" for n s v
    by (simp add: reverting_env_def working_env_def)
  have "snd (createCoin (zora reverting_env) ?p) = Inl ?e"
    unfolding reverting_env_def working_env_def third_time_env_def advisory_decision_def
      ipfs_uri_def
    by code_simp
  then have p: "createCoin (zora reverting_env) ?p
                = (fst (createCoin (zora reverting_env) ?p), Inl ?e)"
    by (metis prod.collapse)
  have "snd (createCoin (zora reverting_env) ?q) = Inl ?e"
    unfolding reverting_env_def working_env_def third_time_env_def advisory_decision_def
      ipfs_uri_def wave_cast_def alice_def
    by code_simp
  then have q: "createCoin (zora reverting_env) ?q
                = (fst (createCoin (zora reverting_env) ?q), Inl ?e)"
    by (metis prod.collapse)
  have "executeTokenCreation reverting_env advisory_decision wave_cast (Some wave_analysis)
        = map Zora (fst (createCoin (zora reverting_env) ?p))
          @ [Reply (fid (author wave_cast)) (hash wave_cast) creation_failed_reply]"
    using failed_creation_one_reply_no_ledger
      [where env = reverting_env and cast = wave_cast and a = "''0xabc''"
         and u = "''https://x/y.png''" and d = advisory_decision and ia = "Some wave_analysis"
         and uri = ipfs_uri and e = ?e
         and zevs = "fst (createCoin (zora reverting_env) ?p)"]
      dry addr(1) img build p
    by simp
  moreover have "executeCastTokenCreation reverting_env advisory_decision coin_this_cast
                   (Some ?i) wave_cast
        = map Zora (fst (createCoin (zora reverting_env) ?q))
          @ [Reply (fid (author coin_this_cast)) (hash coin_this_cast) creation_failed_reply]"
    using failed_creation_one_reply_no_ledger
      [where env = reverting_env and cast = coin_this_cast and a = "''0xabc''" and i = ?i
         and d = advisory_decision and targetCast = wave_cast
         and uri = ipfs_uri and e = ?e
         and zevs = "fst (createCoin (zora reverting_env) ?q)"]
      dry addr(2) i build q
    by simp
  ultimately show ?thesis by simp
qed


section \<open>The two paths of the agent\<close>

lemma executeTokenCreation_quiet:
  "conversation_rows (executeTokenCreation env d cast ia) = []"
  "claude_calls (executeTokenCreation env d cast ia) = []"
  by (auto simp: executeTokenCreation_def Let_def split: sum.splits prod.splits option.splits)

lemma executeCastTokenCreation_quiet:
  "conversation_rows (executeCastTokenCreation env d cast i t) = []"
  "claude_calls (executeCastTokenCreation env d cast i t) = []"
  by (auto simp: executeCastTokenCreation_def Let_def
      split: sum.splits prod.splits option.splits)

lemma analyzeCast_events:
  "conversation_rows (fst (analyzeCastForTokenCreation env t)) = []"
  "ledger_rows (fst (analyzeCastForTokenCreation env t)) = []"
  "reply_texts (fst (analyzeCastForTokenCreation env t)) = []"
  by (auto simp: analyzeCastForTokenCreation_def Let_def split: sum.splits option.splits)

lemma analyzeCast_explicit:
  assumes "extractExplicitName (cast_text t) = Some n" "n \<noteq> []"
  shows "analyzeCastForTokenCreation env t =
           ([], \<lparr>ti_name = n,
                 ti_symbol = or_default (extractExplicitSymbol (cast_text t))
                               (generateSymbolFromName n),
                 ti_description = tokenized_description (cast_text t)\<rparr>)"
  using assms by (simp add: analyzeCastForTokenCreation_def Let_def)

lemma processCastTokenRequest_no_conversation:
  "conversation_rows (processCastTokenRequest env cast) = []"
  using analyzeCast_events(1) [of env "resolve_target env cast"]
  by (cases "analyzeCastForTokenCreation env (resolve_target env cast)")
     (simp add: processCastTokenRequest_def Let_def executeCastTokenCreation_quiet)

lemma processCastTokenRequest_explicit_no_call:
  assumes "extractExplicitName (cast_text (resolve_target env cast)) = Some n" "n \<noteq> []"
  shows "claude_calls (processCastTokenRequest env cast) = []"
  using analyzeCast_explicit [OF assms, of env]
  by (simp add: processCastTokenRequest_def Let_def executeCastTokenCreation_quiet)

lemma makeRegularDecision_events:
  "conversation_rows (fst (makeRegularDecision env cast ia uc)) = []"
  by (auto simp: makeRegularDecision_def Let_def split: sum.splits option.splits)

lemma processRegular_conversation:
  "snd (processRegularTokenRequest env cast) = None \<Longrightarrow>
     \<exists>d ia. conversation_rows (fst (processRegularTokenRequest env cast))
              = [conversation_of cast d ia]"
  by (auto simp: processRegularTokenRequest_def Let_def executeTokenCreation_quiet
      makeRegularDecision_events split: sum.splits prod.splits option.splits if_splits;
      metis makeRegularDecision_events fst_conv)

text \<open>
  Claim C10. An interaction classified as "coin this cast" inserts no conversation row,
  whatever the collaborators answer; a conversation row comes only from the regular path,
  which inserts exactly one when it does not throw.
\<close>

theorem cast_token_path_stores_no_conversation:
  "(isRequestToCoinCast (cast_text cast) \<longrightarrow>
      conversation_rows (processInteraction env cast) = [])
   \<and> (\<not> isRequestToCoinCast (cast_text cast)
       \<and> snd (processRegularTokenRequest env cast) = None \<longrightarrow>
      (\<exists>d ia. conversation_rows (processInteraction env cast) = [conversation_of cast d ia]))
   \<and> conversation_rows (processCastTokenRequest env cast) = []"
proof -
  have "conversation_rows (processInteraction env cast) = []"
    if "isRequestToCoinCast (cast_text cast)"
    using that processCastTokenRequest_no_conversation [of env cast]
    by (simp add: processInteraction_def)
  moreover have "\<exists>d ia. conversation_rows (processInteraction env cast)
                   = [conversation_of cast d ia]"
    if "\<not> isRequestToCoinCast (cast_text cast)"
      "snd (processRegularTokenRequest env cast) = None"
    using that processRegular_conversation [of env cast]
    by (cases "processRegularTokenRequest env cast") (auto simp: processInteraction_def)
  ultimately show ?thesis using processCastTokenRequest_no_conversation by blast
qed

text \<open>
  A "coin this cast" interaction that creates a token and appends a ledger row, and stores no
  conversation.
\<close>

theorem cast_token_path_stores_no_conversation_witness:
  "conversation_rows (processInteraction working_env coin_this_cast) = []
   \<and> length (ledger_rows (processInteraction working_env coin_this_cast)) = 1"
proof -
  have "isRequestToCoinCast (cast_text coin_this_cast)"
    unfolding coin_this_cast_def by code_simp
  then have "conversation_rows (processInteraction working_env coin_this_cast) = []"
    using cast_token_path_stores_no_conversation [of coin_this_cast working_env] by blast
  moreover have "length (ledger_rows (processInteraction working_env coin_this_cast)) = 1"
    unfolding working_env_def coin_this_cast_def third_time_env_def alice_def ipfs_uri_def
      minted_def
    by code_simp
  ultimately show ?thesis by blast
qed



section \<open>Explicit names\<close>

lemma makeRegularDecision_override:
  assumes "extractExplicitName (cast_text cast) = Some n" "n \<noteq> []"
    and "callClaude env (DecisionRequest (buildContextText cast ia uc)) = Inr response"
    and "parse_decision env response = Some d" "action d = ''create_token''"
  shows "makeRegularDecision env cast ia uc =
           ([ClaudeCall (DecisionRequest (buildContextText cast ia uc))],
            d\<lparr>suggested_name := Some n,
              suggested_symbol :=
                Some (or_default (extractExplicitSymbol (cast_text cast))
                        (generateSymbolFromName n))\<rparr>)"
  using assms by (simp add: makeRegularDecision_def Let_def)

lemma fallback_decision_name:
  assumes "extractExplicitName (cast_text cast) = Some n" "n \<noteq> []"
    and "action (fallback_decision cast ia) = ''create_token''"
  shows "suggested_name (fallback_decision cast ia) = Some n"
  using assms by (auto simp: fallback_decision_def Let_def split: option.splits if_splits)

lemma makeRegularDecision_name:
  assumes n: "extractExplicitName (cast_text cast) = Some n" "n \<noteq> []"
    and c: "action (snd (makeRegularDecision env cast ia uc)) = ''create_token''"
  shows "suggested_name (snd (makeRegularDecision env cast ia uc)) = Some n"
proof (cases "callClaude env (DecisionRequest (buildContextText cast ia uc))")
  case (Inl e)
  then have "snd (makeRegularDecision env cast ia uc) = fallback_decision cast ia"
    by (simp add: makeRegularDecision_def Let_def)
  then show ?thesis using fallback_decision_name [OF n] c by simp
next
  case (Inr response)
  show ?thesis
  proof (cases "parse_decision env response")
    case None
    then have "snd (makeRegularDecision env cast ia uc) = fallback_decision cast ia"
      using Inr by (simp add: makeRegularDecision_def Let_def)
    then show ?thesis using fallback_decision_name [OF n] c by simp
  next
    case (Some d)
    show ?thesis
    proof (cases "action d = ''create_token''")
      case True
      then show ?thesis using makeRegularDecision_override [OF n Inr Some True] by simp
    next
      case False
      then have "snd (makeRegularDecision env cast ia uc) = d"
        using Inr Some by (simp add: makeRegularDecision_def Let_def)
      then show ?thesis using c False by simp
    qed
  qed
qed

text \<open>
  Claim C6. The code does not always use the literal name the user states. The pattern for
  "token called X" and "token named X" ends with its lazy capture group and an optional
  quote, so the group never takes more than one character: for the request
  \<^verbatim>\<open>@zoiner create a token called "Sunset Dream"\<close> the extracted name is "S". On the regular
  path the advisory decision then gets the name "S" and the symbol "S" with its message kept,
  and the ledger row of the created token carries the name "S"; the naming step of the
  "coin this cast" path returns "S" for a target cast with that text, and a reply
  "coin this cast" to that cast creates a token recorded as "S", without an advisory call.
  The sibling pattern for "coin called X", which ends with a terminator, yields the whole
  name "Sunset Dream".
\<close>

theorem token_called_keeps_one_character:
  "extractExplicitName token_called_text = Some ''S''
   \<and> extractExplicitName ''@zoiner make a token named Gold'' = Some ''G''
   \<and> extractExplicitName coin_called_text = Some ''Sunset Dream''
   \<and> snd (makeRegularDecision working_env sunset_cast (Some wave_analysis)
            \<lparr>uc_fid = 7, recent_actions = [], creation_count = 0\<rparr>)
       = \<lparr>action = ''create_token'', message = ''what a wave!'',
          suggested_name = Some ''S'', suggested_symbol = Some ''S'',
          metadata_description = Some ''a wave at dawn''\<rparr>
   \<and> map token_name (ledger_rows (processInteraction working_env sunset_cast)) = [Some ''S'']
   \<and> analyzeCastForTokenCreation working_env sunset_cast
       = ([], \<lparr>ti_name = ''S'', ti_symbol = ''S'',
               ti_description = tokenized_description token_called_text\<rparr>)
   \<and> map token_name (ledger_rows (processInteraction sunset_env coin_sunset_cast))
       = [Some ''S'']
   \<and> claude_calls (processInteraction sunset_env coin_sunset_cast) = []"
proof -
  let ?uc = "\<lparr>uc_fid = 7, recent_actions = [], creation_count = 0\<rparr>"
  have n: "extractExplicitName token_called_text = Some ''S''"
    unfolding token_called_text_def by code_simp
  have g: "extractExplicitName ''@zoiner make a token named Gold'' = Some ''G''"
    by code_simp
  have c: "extractExplicitName coin_called_text = Some ''Sunset Dream''"
    unfolding coin_called_text_def by code_simp
  have s: "extractExplicitSymbol token_called_text = None"
    unfolding token_called_text_def by code_simp
  have y: "generateSymbolFromName ''S'' = ''S''" by code_simp
  have t: "cast_text sunset_cast = token_called_text" by (simp add: sunset_cast_def)
  have "callClaude working_env
          (DecisionRequest (buildContextText sunset_cast (Some wave_analysis) ?uc))
        = Inr ''answer''"
    "parse_decision working_env ''answer'' = Some advisory_decision"
    "action advisory_decision = ''create_token''"
    by (simp_all add: working_env_def advisory_decision_def)
  then have d: "snd (makeRegularDecision working_env sunset_cast (Some wave_analysis) ?uc)
       = \<lparr>action = ''create_token'', message = ''what a wave!'',
          suggested_name = Some ''S'', suggested_symbol = Some ''S'',
          metadata_description = Some ''a wave at dawn''\<rparr>"
    using makeRegularDecision_override
      [of sunset_cast "''S''" working_env "Some wave_analysis" ?uc "''answer''"
          advisory_decision]
    by (simp add: t n s y advisory_decision_def)
  have l: "map token_name (ledger_rows (processInteraction working_env sunset_cast))
           = [Some ''S'']"
    unfolding working_env_def sunset_cast_def token_called_text_def third_time_env_def
      alice_def ipfs_uri_def minted_def wave_analysis_def advisory_decision_def dquote_def
    by code_simp
  have a: "analyzeCastForTokenCreation working_env sunset_cast
       = ([], \<lparr>ti_name = ''S'', ti_symbol = ''S'',
               ti_description = tokenized_description token_called_text\<rparr>)"
    using analyzeCast_explicit [of sunset_cast "''S''" working_env]
    by (simp add: t n s y)
  have p: "map token_name (ledger_rows (processInteraction sunset_env coin_sunset_cast))
           = [Some ''S'']"
    unfolding sunset_env_def coin_sunset_cast_def working_env_def sunset_cast_def
      token_called_text_def third_time_env_def alice_def ipfs_uri_def minted_def
      wave_analysis_def advisory_decision_def dquote_def
    by code_simp
  have q: "claude_calls (processInteraction sunset_env coin_sunset_cast) = []"
  proof -
    have r: "isRequestToCoinCast (cast_text coin_sunset_cast)"
      unfolding coin_sunset_cast_def by code_simp
    have "resolve_target sunset_env coin_sunset_cast = sunset_cast"
      by (simp add: resolve_target_def sunset_env_def coin_sunset_cast_def)
    then have "claude_calls (processCastTokenRequest sunset_env coin_sunset_cast) = []"
      using processCastTokenRequest_explicit_no_call [of sunset_env coin_sunset_cast "''S''"]
      by (simp add: t n)
    then show ?thesis using r by (simp add: processInteraction_def)
  qed
  show ?thesis
    by (intro conjI) (rule n g c d l a p q)+
qed



section \<open>The webhook route and its cooldown\<close>

lemma ledger_rows_executeTokenCreation:
  "length (ledger_rows (executeTokenCreation env d cast ia)) \<le> 1"
  using executeTokenCreation_ledger [of env d cast ia] by auto

lemma ledger_rows_executeCastTokenCreation:
  "length (ledger_rows (executeCastTokenCreation env d cast i t)) \<le> 1"
  by (auto simp: executeCastTokenCreation_def Let_def
      split: sum.splits prod.splits option.splits)

lemma makeRegularDecision_no_ledger:
  "ledger_rows (fst (makeRegularDecision env cast ia uc)) = []"
  by (auto simp: makeRegularDecision_def Let_def split: sum.splits option.splits)

lemma ledger_rows_processCastTokenRequest:
  "length (ledger_rows (processCastTokenRequest env cast)) \<le> 1"
  using analyzeCast_events(2) [of env "resolve_target env cast"]
    ledger_rows_executeCastTokenCreation
  by (cases "analyzeCastForTokenCreation env (resolve_target env cast)")
     (simp add: processCastTokenRequest_def Let_def)

lemma ledger_rows_processRegular:
  "length (ledger_rows (fst (processRegularTokenRequest env cast))) \<le> 1"
proof -
  let ?ia = "if truthy (extractImageFromCast cast)
             then analyzeImage env (render (extractImageFromCast cast)) else Inr None"
  show ?thesis
  proof (cases ?ia)
    case (Inl e)
    then show ?thesis by (simp add: processRegularTokenRequest_def Let_def)
  next
    case (Inr ia)
    show ?thesis
    proof (cases "getUserContext env (fid (author cast))")
      case (Inl e)
      then show ?thesis using Inr by (simp add: processRegularTokenRequest_def Let_def)
    next
      case uc: (Inr uc)
      obtain devs d where md: "makeRegularDecision env cast ia uc = (devs, d)"
        by (cases "makeRegularDecision env cast ia uc")
      have dl: "ledger_rows devs = []"
        using makeRegularDecision_no_ledger [of env cast ia uc] md by simp
      show ?thesis
        using Inr uc md dl ledger_rows_executeTokenCreation [of env d cast ia]
        by (auto simp: processRegularTokenRequest_def Let_def split: option.splits)
    qed
  qed
qed

lemma ledger_rows_processInteraction:
  "length (ledger_rows (processInteraction env cast)) \<le> 1"
proof (cases "isRequestToCoinCast (cast_text cast)")
  case True
  then show ?thesis
    using ledger_rows_processCastTokenRequest [of env cast] by (simp add: processInteraction_def)
next
  case False
  then show ?thesis
    using ledger_rows_processRegular [of env cast]
    by (cases "processRegularTokenRequest env cast")
       (auto simp: processInteraction_def split: option.splits)
qed

lemma ledger_rows_processCast:
  "length (ledger_rows (fst (processCast env seen h))) \<le> 1"
  using ledger_rows_processInteraction
  by (auto simp: processCast_def Let_def split: option.splits)

lemma ledger_rows_POST:
  "length (ledger_rows (fst (snd (POST env ok now event cd)))) \<le> 1"
  using ledger_rows_processCast
  by (auto simp: POST_def Let_def split: option.splits)

lemma POST_cooldown_rejects:
  assumes "event_type ev = ''cast.created''" "cd (event_hash ev) = Some t0" "t0 \<noteq> 0"
    "now - t0 < 30000"
  shows "POST env ok now (Some ev) cd = (Cooldown_active, [], cd)"
  using assms by (simp add: POST_def COOLDOWN_MS_def)

lemma POST_state:
  assumes "event_type ev = ''cast.created''" "POST env ok now (Some ev) cd = (r, evs, cd')"
    "r \<noteq> Cooldown_active"
  shows "cd' h = (if h = event_hash ev then Some now
                  else case cd h of
                         None \<Rightarrow> None
                       | Some t \<Rightarrow> if t < now - 60 * 60 * 1000 then None else Some t)"
  using assms
  by (auto simp: POST_def Let_def evict_older_def split: option.splits if_splits)

lemma POST_unchanged:
  assumes "POST env ok now event cd = (r, evs, cd')"
    "r = Cooldown_active \<or> r = Ignored_event_type \<or> r = Internal_error"
  shows "cd' = cd \<and> evs = []"
  using assms by (auto simp: POST_def Let_def split: option.splits if_splits)

lemma POST_duplicate:
  assumes ev: "event_type ev = ''cast.created''"
    and first: "POST env ok0 t0 (Some ev) cd0 = (r, evs, cd1)" "r \<noteq> Cooldown_active"
    and t: "t0 \<noteq> 0" "t1 - t0 < 30000"
  shows "POST env ok1 t1 (Some ev) cd1 = (Cooldown_active, [], cd1)"
proof -
  have "cd1 (event_hash ev) = Some t0"
    using POST_state [OF ev first, of "event_hash ev"] by simp
  then show ?thesis using POST_cooldown_rejects [OF ev _ t] by simp
qed



text \<open>
  Claim C3, amended. A \<^verbatim>\<open>cast.created\<close> delivery whose hash has a cooldown entry less than
  30 seconds old is rejected before the service is built and before any cast is fetched: it
  has no effect and leaves the map as it is. So a second delivery of a hash, less than 30
  seconds after a delivery of that hash that was itself accepted, adds no reply and no ledger
  write; one delivery writes at most one ledger row. Entries older than one hour are evicted
  on every accepted delivery (one that passes the event-type check and the cooldown check),
  which also records its own time; an ignored or rejected receipt changes nothing. Times
  are those of \<^verbatim>\<open>Date.now()\<close>, which is never 0.
\<close>

theorem cooldown_rejects_duplicate:
  "(event_type ev = ''cast.created'' \<and> cd (event_hash ev) = Some t0 \<and> t0 \<noteq> 0
      \<and> now - t0 < 30000 \<longrightarrow>
      POST env ok now (Some ev) cd = (Cooldown_active, [], cd))
   \<and> (event_type ev = ''cast.created'' \<and> POST env ok0 t0 (Some ev) cd0 = (r, evs, cd1)
       \<and> r \<noteq> Cooldown_active \<and> t0 \<noteq> 0 \<and> t1 - t0 < 30000 \<longrightarrow>
      POST env ok1 t1 (Some ev) cd1 = (Cooldown_active, [], cd1))
   \<and> (event_type ev = ''cast.created'' \<and> POST env ok now (Some ev) cd = (r, evs, cd')
       \<and> r \<noteq> Cooldown_active \<longrightarrow>
      (\<forall>h. cd' h = (if h = event_hash ev then Some now
                     else case cd h of
                            None \<Rightarrow> None
                          | Some t \<Rightarrow> if t < now - 60 * 60 * 1000 then None else Some t)))
   \<and> (POST env ok now event cd = (r, evs, cd')
       \<and> (r = Cooldown_active \<or> r = Ignored_event_type \<or> r = Internal_error) \<longrightarrow>
      cd' = cd \<and> evs = [])
   \<and> length (ledger_rows (fst (snd (POST env ok now event cd)))) \<le> 1"
proof -
  have 1: "POST env ok now (Some ev) cd = (Cooldown_active, [], cd)"
    if "event_type ev = ''cast.created''" "cd (event_hash ev) = Some t0" "t0 \<noteq> 0"
      "now - t0 < 30000"
    using that by (rule POST_cooldown_rejects)
  have 2: "POST env ok1 t1 (Some ev) cd1 = (Cooldown_active, [], cd1)"
    if "event_type ev = ''cast.created''" "POST env ok0 t0 (Some ev) cd0 = (r, evs, cd1)"
      "r \<noteq> Cooldown_active" "t0 \<noteq> 0" "t1 - t0 < 30000"
    using that by (rule POST_duplicate)
  have 3: "\<forall>h. cd' h = (if h = event_hash ev then Some now
                     else case cd h of
                            None \<Rightarrow> None
                          | Some t \<Rightarrow> if t < now - 60 * 60 * 1000 then None else Some t)"
    if "event_type ev = ''cast.created''" "POST env ok now (Some ev) cd = (r, evs, cd')"
      "r \<noteq> Cooldown_active"
    using POST_state [OF that] by blast
  have 4: "cd' = cd \<and> evs = []"
    if "POST env ok now event cd = (r, evs, cd')"
      "r = Cooldown_active \<or> r = Ignored_event_type \<or> r = Internal_error"
    using that by (rule POST_unchanged)
  show ?thesis using 1 2 3 4 ledger_rows_POST [of env ok now event cd] by blast
qed

text \<open>The same cast delivered at 5 s and again at 20 s: the second delivery does nothing.\<close>

theorem cooldown_rejects_duplicate_witness:
  "POST working_env True 20000 (Some (created ''0xA''))
     (snd (snd (POST working_env True 5000 (Some (created ''0xA'')) Map.empty)))
   = (Cooldown_active, [],
      snd (snd (POST working_env True 5000 (Some (created ''0xA'')) Map.empty)))"
proof -
  let ?first = "POST working_env True 5000 (Some (created ''0xA'')) Map.empty"
  have ty: "event_type (created ''0xA'') = ''cast.created''" by (simp add: created_def)
  have r: "fst ?first = Completed"
    by (simp add: POST_def created_def Let_def)
  have p: "?first = (fst ?first, fst (snd ?first), snd (snd ?first))" by simp
  have "fst ?first \<noteq> Cooldown_active" using r by simp
  moreover have "(5000::int) \<noteq> 0" "(20000::int) - 5000 < 30000" by simp_all
  ultimately show ?thesis
    using cooldown_rejects_duplicate
      [where ev = "created ''0xA''" and env = working_env and ?ok0.0 = True and ?t0.0 = 5000
         and ?cd0.0 = Map.empty and r = "fst ?first" and evs = "fst (snd ?first)"
         and ?cd1.0 = "snd (snd ?first)" and ?t1.0 = 20000 and ?ok1.0 = True]
      ty p
    by blast
qed

text \<open>
  Claim C3 as stated fails in two places. The handler accepts the hash \<open>0xold\<close> at time 1 and
  the hash \<open>0xA\<close> at time 3600000. A second delivery of \<open>0xA\<close> ten seconds later is rejected
  by the cooldown, and a receipt of another event type at that time is ignored: neither
  evicts the entry of \<open>0xold\<close>, which is then older than one hour. And a duplicate delivery
  does not make the number of replies one: the cast \<open>0xold\<close> cannot be fetched, so its first
  delivery replies nothing and its second, one millisecond later, is rejected.
\<close>

theorem stale_entry_survives_counterexample:
  "reached_cooldown ''0xold'' = Some 1
   \<and> (1::int) < 3610000 - 60 * 60 * 1000
   \<and> POST working_env True 3610000 (Some (created ''0xA'')) reached_cooldown
       = (Cooldown_active, [], reached_cooldown)
   \<and> POST working_env True 3610000
        (Some \<lparr>event_type = ''cast.deleted'', event_hash = ''0xA''\<rparr>) reached_cooldown
       = (Ignored_event_type, [], reached_cooldown)
   \<and> POST working_env True 1 (Some (created ''0xold'')) Map.empty
       = (Completed, [], [''0xold'' \<mapsto> 1])
   \<and> POST working_env True 2 (Some (created ''0xold'')) [''0xold'' \<mapsto> 1]
       = (Cooldown_active, [], [''0xold'' \<mapsto> 1])"
proof -
  have "reached_cooldown ''0xold'' = Some 1" "reached_cooldown ''0xA'' = Some 3600000"
    by (simp_all add: reached_cooldown_def POST_def created_def Let_def evict_older_def
        COOLDOWN_MS_def)
  moreover have "POST working_env True 1 (Some (created ''0xold'')) Map.empty
                 = (Completed, [], [''0xold'' \<mapsto> 1])"
    by (simp add: POST_def created_def Let_def evict_older_def COOLDOWN_MS_def
        processCast_def working_env_def fun_eq_iff)
  ultimately show ?thesis
    by (simp add: POST_def created_def COOLDOWN_MS_def)
qed


section \<open>A delayed success\<close>

text \<open>
  The issuance fails twice because the metadata has not propagated and succeeds on the third
  attempt: the minting sequence sends one reply, the success text, and inserts one ledger row.
\<close>

lemma third_attempt_is_transparent:
  "sdk_calls
     (executeTokenCreation working_env advisory_decision wave_cast (Some wave_analysis))
     = [1, 2, 3]
   \<and> reply_texts
       (executeTokenCreation working_env advisory_decision wave_cast (Some wave_analysis))
       = [success_reply ''what a wave!'' ''https://zora.co/coin/base:0x2?referrer=0xdef'']
   \<and> map token_name
       (ledger_rows
          (executeTokenCreation working_env advisory_decision wave_cast (Some wave_analysis)))
       = [Some ''Ocean'']"
  unfolding working_env_def wave_cast_def third_time_env_def alice_def ipfs_uri_def
    minted_def wave_analysis_def advisory_decision_def
  by code_simp

end
